theory Spec2Isabelle
  imports Complex_Main "HOL-Library.Sublist"
begin

section \<open>JavaScript Numbers\<close>

text \<open>
  Every number of the program is an IEEE 754 double: the fields of a contract, the quantity
  of a request, and the sums and quotients the handler, the model's virtuals and MongoDB
  compute from them. (The driver stores a Number that is a 32-bit integer as such and any
  other Number as a double; \<open>$add\<close> and \<open>$inc\<close> are exact on 32-bit operands, where the
  double sum is exact too, and follow the double arithmetic as soon as one operand is a
  double; \<open>$divide\<close> always does.) A double is the rational it denotes. \<open>double_of\<close>
  rounds a rational to the nearest double, ties to the even significand, with 53 bits of
  significand. The exponent is not bounded: overflow to \<open>Infinity\<close> and the subnormal
  numbers are left out, which a value between \<open>2 ^ -1022\<close> and \<open>2 ^ 1023\<close> in size cannot
  tell.
\<close>

text \<open>The number of binary digits of a positive integer.\<close>

function bitlen :: "int \<Rightarrow> int" where
  "bitlen n = (if n \<le> 0 then 0 else 1 + bitlen (n div 2))"
  by pat_completeness auto
termination
  by (relation "measure nat") auto

declare bitlen.simps [simp del]

text \<open>Rounding to the nearest integer, a tie to the even one.\<close>

definition rne :: "rat \<Rightarrow> int" where
  "rne x =
     (let f = \<lfloor>x\<rfloor>; r = x - of_int f
      in if r < 1 / 2 then f else if 1 / 2 < r then f + 1 else if even f then f else f + 1)"

text \<open>The exponent \<open>e\<close> of a positive \<open>x\<close>: \<open>2 ^ e \<le> x < 2 ^ (e + 1)\<close>.\<close>

definition binade :: "rat \<Rightarrow> int" where
  "binade x =
     (let (p, q) = quotient_of x;
          d = bitlen p - bitlen q
      in if 2 powi d \<le> x then d else d - 1)"

definition double_of :: "rat \<Rightarrow> rat" where
  "double_of x =
     (if x = 0 then 0
      else (let u = 2 powi (binade \<bar>x\<bar> - 52) in of_int (rne (x / u)) * u))"

text \<open>
  The operators \<open>+\<close>, \<open>/\<close> and \<open>*\<close> on Numbers. The sum of two integer Numbers is an
  integer again (a double of size \<open>2 ^ 52\<close> or more is an integer, and below that the sum
  is exact), which \<open>js_add\<close> returns as an \<open>int\<close>.
\<close>

definition js_add :: "int \<Rightarrow> int \<Rightarrow> int" where
  "js_add a b = \<lfloor>double_of (of_int a + of_int b)\<rfloor>"

definition js_div :: "rat \<Rightarrow> rat \<Rightarrow> rat" where
  "js_div a b = double_of (a / b)"

definition js_mul :: "rat \<Rightarrow> rat \<Rightarrow> rat" where
  "js_mul a b = double_of (a * b)"

text \<open>The percentage the program computes for the exact quotient \<open>x\<close>.\<close>

definition percent :: "rat \<Rightarrow> rat" where
  "percent x = double_of (double_of x * 100)"


section \<open>The Contract model (src/server/models/Contract.js)\<close>

text \<open>
  The Number fields of a contract hold integers and are \<open>int\<close>s here; an \<open>int\<close> that no
  double denotes stands for no stored value. Times are milliseconds (\<open>Date.now()\<close>) as
  \<open>nat\<close>. Of the schema's fields the model keeps those the shipment route and the derived
  fields read or write; \<open>oid\<close> is the document's \<open>_id\<close>.
\<close>

record notification =
  email :: string
  message :: string
  ntype :: string
  timestamp :: nat

record contract =
  oid :: nat
  contractId :: string
  deviceCount :: int
  batteriesShipped :: int
  threshold :: int
  isLocked :: bool
  lastUpdated :: nat
  notificationsSent :: "notification list"

datatype contract_status = LOCKED | EXCEEDED | WARNING | ACTIVE

text \<open>The virtual \<open>thresholdPercentage\<close>: guarded against a threshold that is not positive.\<close>

definition thresholdPercentage :: "contract \<Rightarrow> rat" where
  "thresholdPercentage c =
     (if threshold c > 0
      then js_mul (js_div (of_int (batteriesShipped c)) (of_int (threshold c))) 100
      else 0)"

text \<open>The virtual \<open>status\<close>, with the source's order of tests.\<close>

definition status :: "contract \<Rightarrow> contract_status" where
  "status c =
     (if isLocked c then LOCKED
      else if thresholdPercentage c \<ge> 100 then EXCEEDED
      else if thresholdPercentage c \<ge> 80 then WARNING
      else ACTIVE)"


section \<open>The list-contracts aggregation stage (src/unnamed/part_002, lines 29 to 67)\<close>

text \<open>
  MongoDB's \<open>$divide\<close> fails the whole aggregation when the divisor is zero; the failure
  is \<open>None\<close>. Its quotient and the product of \<open>$multiply\<close> are doubles. The
  \<open>$addFields\<close> stage computes both new fields for every document, so a failing
  \<open>$divide\<close> fails the stage whatever \<open>isLocked\<close> is.
\<close>

definition mongo_divide :: "int \<Rightarrow> int \<Rightarrow> rat option" where
  "mongo_divide a b = (if b = 0 then None else Some (js_div (of_int a) (of_int b)))"

definition switch_status :: "bool \<Rightarrow> rat \<Rightarrow> contract_status" where
  "switch_status locked ratio =
     (if locked = True then LOCKED
      else if js_mul ratio 100 \<ge> 100 then EXCEEDED
      else if js_mul ratio 100 \<ge> 80 then WARNING
      else ACTIVE)"

definition addFields :: "contract \<Rightarrow> (rat \<times> contract_status) option" where
  "addFields d =
     (case mongo_divide (batteriesShipped d) (threshold d) of
        None \<Rightarrow> None
      | Some ratio \<Rightarrow> Some (js_mul ratio 100, switch_status (isLocked d) ratio))"

definition pipeline_status :: "contract \<Rightarrow> contract_status option" where
  "pipeline_status d = map_option snd (addFields d)"


section \<open>Printing numbers and strings\<close>

text \<open>
  A template literal prints an integer Number in decimal, with a leading minus sign when it
  is negative. The digits here are those of the integer itself, which is what JavaScript
  prints for an integer up to \<open>2 ^ 53\<close> in size (beyond, it prints the shortest digits
  that read back as the same double, and an exponent from \<open>10 ^ 21\<close> on).
\<close>

definition digit_char :: "nat \<Rightarrow> char" where
  "digit_char n = ''0123456789'' ! n"

text \<open>The digits of \<open>n\<close> are put in front of \<open>acc\<close>, the last digit first.\<close>

fun decimal_digits :: "nat \<Rightarrow> string \<Rightarrow> string" where
  "decimal_digits n acc =
     (if n < 10 then digit_char n # acc
      else decimal_digits (n div 10) (digit_char (n mod 10) # acc))"

declare decimal_digits.simps [simp del]

definition nat_toString :: "nat \<Rightarrow> string" where
  "nat_toString n = decimal_digits n []"

definition int_toString :: "int \<Rightarrow> string" where
  "int_toString i =
     (if i < 0 then CHR ''-'' # nat_toString (nat (- i)) else nat_toString (nat i))"


section \<open>The lock service (src/unnamed/part_003, lines 142 to 183)\<close>

text \<open>
  The Redis client is a key-value store whose entries carry their expiry time; an entry
  whose time has passed is absent for every reader. \<open>up\<close> says whether a command reaches
  the server: a command on a client that is not \<open>up\<close> rejects, which both functions of
  the service catch, log and answer with \<open>false\<close>.
\<close>

record redis_client =
  up :: bool
  entries :: "string \<rightharpoonup> (string \<times> nat)"

datatype redis_error = ConnectionError

definition redis_get :: "redis_client \<Rightarrow> string \<Rightarrow> nat \<Rightarrow> string option" where
  "redis_get r k t =
     (case entries r k of
        None \<Rightarrow> None
      | Some (v, expiry) \<Rightarrow> if t < expiry then Some v else None)"

text \<open>\<open>SET key value PX timeout NX\<close>: \<open>True\<close> stands for the reply \<open>OK\<close>, \<open>False\<close> for nil.\<close>

definition redis_set_nx_px ::
  "redis_client \<Rightarrow> string \<Rightarrow> string \<Rightarrow> nat \<Rightarrow> nat \<Rightarrow> redis_error + (bool \<times> redis_client)" where
  "redis_set_nx_px r k v px t =
     (if \<not> up r then Inl ConnectionError
      else case redis_get r k t of
             Some held \<Rightarrow> Inr (False, r)
           | None \<Rightarrow> Inr (True, r\<lparr>entries := (entries r)(k \<mapsto> (v, t + px))\<rparr>))"

definition redis_del :: "redis_client \<Rightarrow> string \<Rightarrow> redis_error + redis_client" where
  "redis_del r k =
     (if \<not> up r then Inl ConnectionError
      else Inr (r\<lparr>entries := (entries r)(k := None)\<rparr>))"

record lock_result =
  ok :: bool
  client :: redis_client
  logged :: "string list"

text \<open>
  \<open>acquireLock\<close>: \<open>t\<close> is \<open>Date.now()\<close> and \<open>rnd\<close> the printed \<open>Math.random()\<close>; the
  lock value built from them is stored and never returned.
\<close>

definition acquireLock ::
  "redis_client \<Rightarrow> string \<Rightarrow> nat \<Rightarrow> nat \<Rightarrow> string \<Rightarrow> lock_result" where
  "acquireLock r lockKey timeout t rnd =
     (let lockValue = nat_toString t @ ''-'' @ rnd in
      case redis_set_nx_px r lockKey lockValue timeout t of
        Inl err \<Rightarrow> \<lparr>ok = False, client = r, logged = [''Error acquiring lock:'']\<rparr>
      | Inr (result, r') \<Rightarrow> \<lparr>ok = result, client = r', logged = []\<rparr>)"

definition releaseLock :: "redis_client \<Rightarrow> string \<Rightarrow> lock_result" where
  "releaseLock r lockKey =
     (case redis_del r lockKey of
        Inl err \<Rightarrow> \<lparr>ok = False, client = r, logged = [''Error releasing lock:'']\<rparr>
      | Inr r' \<Rightarrow> \<lparr>ok = True, client = r', logged = []\<rparr>)"

text \<open>
  The service's third function, \<open>extendLock\<close>, is called by no route and is not part of
  the model.
\<close>


section \<open>The ledger: the Contract methods that write, and the Shipment schema\<close>

datatype shipment_status = APPROVED | BLOCKED | PENDING

record shipment =
  shipmentId :: string
  s_contractId :: string
  s_contract :: nat
  s_batteriesShipped :: int
  s_timestamp :: nat
  s_status :: shipment_status
  initiatedBy :: string
  userId :: nat
  s_notes :: "string option"
  blockReason :: "string option"

text \<open>
  The contracts collection is keyed by its unique index \<open>contractId\<close>. A filter by \<open>_id\<close>
  looks at the document stored under the \<open>contractId\<close> of the in-memory document and
  compares the \<open>oid\<close>s (no route changes a \<open>contractId\<close>). The shipments collection is
  the list of its documents in insertion order.
\<close>

record ledger =
  contracts :: "string \<rightharpoonup> contract"
  shipments :: "shipment list"

definition findOneContract :: "ledger \<Rightarrow> string \<Rightarrow> contract option" where
  "findOneContract l cid = contracts l cid"

text \<open>
  \<open>shipBatteries\<close>: the conditional \<open>findOneAndUpdate\<close>. The filter is evaluated on the
  stored document, not on the in-memory one; the result is the updated document
  (\<open>new: true\<close>) with the collection after the write, or \<open>None\<close> for \<open>null\<close>.
\<close>

definition shipBatteries ::
  "ledger \<Rightarrow> contract \<Rightarrow> int \<Rightarrow> nat \<Rightarrow> (contract \<times> ledger) option" where
  "shipBatteries l c quantity t =
     (case contracts l (contractId c) of
        None \<Rightarrow> None
      | Some d \<Rightarrow>
          if oid d = oid c \<and> isLocked d = False \<and>
             js_add (batteriesShipped d) quantity \<le> threshold d
          then (let d' = d\<lparr>batteriesShipped := js_add (batteriesShipped d) quantity,
                           lastUpdated := t\<rparr>
                in Some (d', l\<lparr>contracts := (contracts l)(contractId c \<mapsto> d')\<rparr>))
          else None)"

text \<open>
  \<open>save()\<close> of a document that was loaded from the collection writes the paths the caller
  modified (\<open>changes\<close>, which includes the pre-save hook's \<open>lastUpdated\<close>) to the stored
  document with the same \<open>_id\<close>; it rejects (\<open>None\<close>) when there is no such document.
\<close>

definition save_existing ::
  "ledger \<Rightarrow> contract \<Rightarrow> (contract \<Rightarrow> contract) \<Rightarrow> ledger option" where
  "save_existing l c changes =
     (case contracts l (contractId c) of
        None \<Rightarrow> None
      | Some d \<Rightarrow>
          if oid d = oid c
          then Some (l\<lparr>contracts := (contracts l)(contractId c \<mapsto> changes d)\<rparr>)
          else None)"

definition addNotification ::
  "ledger \<Rightarrow> contract \<Rightarrow> string \<Rightarrow> string \<Rightarrow> string \<Rightarrow> nat \<Rightarrow> ledger option" where
  "addNotification l c em msg ty t =
     save_existing l c
       (\<lambda>d. d\<lparr>notificationsSent :=
                 notificationsSent d @ [\<lparr>email = em, message = msg, ntype = ty, timestamp = t\<rparr>],
               lastUpdated := t\<rparr>)"


section \<open>The shipment route (src/server/middleware/auth.js, lines 262 to 429)\<close>

text \<open>
  The file holds the shipments router after the authentication middleware; the handler is
  \<open>router.post('/')\<close>. A request carries the body fields and the authenticated user. The
  body's \<open>batteriesShipped\<close> is an integer Number (a Number that is not an integer fails
  \<open>isInt\<close>; a body that carries the quantity as a string of digits is outside the
  model), an absent \<open>contractId\<close> is the empty string. What the handler takes from its
  environment is in \<open>env\<close>: the clock (read once for the request), the random part of the
  lock value, the generated shipment id, and whether the mail transport delivers. The
  ledger itself is taken to answer: connection failures of MongoDB are not part of the
  model.
\<close>

record request =
  r_contractId :: string
  r_batteriesShipped :: int
  r_notes :: "string option"
  username :: string
  user_email :: string
  user_id :: nat

record env =
  now :: nat
  rnd :: string
  sid :: string
  emailOk :: bool

text \<open>
  The calls the handler makes on its collaborators, in the order it makes them. The events
  between \<open>StartTransaction\<close> and \<open>CommitTransaction\<close> or \<open>AbortTransaction\<close> that name a
  ledger operation run inside the session's transaction; \<open>AddNotification\<close> is the
  document's \<open>save()\<close> in \<open>addNotification\<close>.
\<close>

datatype event =
    StartSession
  | StartTransaction
  | AcquireLock string bool
  | AbortTransaction
  | FindContract string
  | SaveContract
  | ShipBatteries
  | SaveShipment
  | CommitTransaction
  | ReleaseLock string
  | Populate
  | AddNotification
  | SendEmail
  | ConsoleError string
  | Emit string
  | EndSession

record world =
  redisClient :: redis_client
  db :: ledger
  trace :: "event list"

text \<open>
  What the client receives: status 400 for a body that fails validation; an error with its
  HTTP status, its text and its machine-readable code; status 201 with the message, the
  shipment and the warning; or nothing, when the handler's promise rejects.
\<close>

datatype response =
    BadRequest
  | Failure nat string string
  | Created string shipment "string option"
  | NoResponse

record admitted =
  a_shipment :: shipment
  a_contract :: contract
  a_newTotal :: int

text \<open>
  The validators of the route. \<open>isInt\<close> tests the printed Number, which is written with
  an exponent from \<open>10 ^ 21\<close> on and fails the test then.
\<close>

definition validationOk :: "request \<Rightarrow> bool" where
  "validationOk req =
     (r_contractId req \<noteq> [] \<and> 1 \<le> r_batteriesShipped req \<and> r_batteriesShipped req < 10 ^ 21)"

definition logev :: "event list \<Rightarrow> world \<Rightarrow> world" where
  "logev es w = w\<lparr>trace := trace w @ es\<rparr>"

definition release :: "string \<Rightarrow> world \<Rightarrow> world" where
  "release lockKey w =
     (let rl = releaseLock (redisClient w) lockKey
      in w\<lparr>redisClient := client rl,
           trace := trace w @ [ReleaseLock lockKey] @ map ConsoleError (logged rl)\<rparr>)"

definition toLowerCase_status :: "shipment_status \<Rightarrow> string" where
  "toLowerCase_status st =
     (case st of APPROVED \<Rightarrow> ''approved'' | BLOCKED \<Rightarrow> ''blocked'' | PENDING \<Rightarrow> ''pending'')"

text \<open>The first six bytes of the notification message in the source file.\<close>

definition warning_sign :: string where
  "warning_sign = [CHR 0xC3, CHR 0xA2, CHR 0xC5, CHR 0xA1, CHR 0xC2, CHR 0xA0]"

definition notification_message :: "string \<Rightarrow> string" where
  "notification_message cid =
     warning_sign @ '' PBR Battery Shipment Limit Reached (Contract: '' @ cid @ '')''"

definition block_reason :: "int \<Rightarrow> int \<Rightarrow> string" where
  "block_reason newTotal thr =
     ''Shipment would exceed threshold ('' @ int_toString newTotal @ ''/'' @
     int_toString thr @ '')''"

text \<open>
  Lines 266 to 292: the session, the validation, the transaction, the lock. \<open>Inl\<close> is a
  request answered here, \<open>Inr\<close> one that goes on with the lock taken.
\<close>

definition enter :: "env \<Rightarrow> request \<Rightarrow> world \<Rightarrow> (response \<times> world) + world" where
  "enter e req w0 =
     (let w1 = logev [StartSession] w0 in
      if \<not> validationOk req then Inl (BadRequest, logev [EndSession] w1)
      else
        (let w2 = logev [StartTransaction] w1;
             lockKey = ''shipment:'' @ r_contractId req;
             la = acquireLock (redisClient w2) lockKey 10000 (now e) (rnd e);
             w3 = w2\<lparr>redisClient := client la,
                     trace := trace w2 @ [AcquireLock lockKey (ok la)] @
                              map ConsoleError (logged la)\<rparr>
         in if \<not> ok la
            then Inl (Failure 423
                        ''Another shipment is being processed for this contract. Please try again.''
                        ''CONCURRENT_SHIPMENT'',
                      logev [AbortTransaction, EndSession] w3)
            else Inr w3))"

text \<open>
  Lines 296 to 304: the contract is read. \<open>Inl\<close> is a thrown error with its message.
\<close>

definition loadContract :: "request \<Rightarrow> world \<Rightarrow> (string \<times> world) + (contract \<times> world)" where
  "loadContract req w =
     (let w1 = logev [FindContract (r_contractId req)] w in
      case findOneContract (db w1) (r_contractId req) of
        None \<Rightarrow> Inl (''CONTRACT_NOT_FOUND'', w1)
      | Some c \<Rightarrow>
          if isLocked c then Inl (''CONTRACT_LOCKED'', w1) else Inr (c, w1))"

text \<open>
  Lines 329 to 343: the shipment document is built and saved in the transaction \<open>tx\<close>, and
  the transaction commits: the working copy becomes the stored ledger.
\<close>

definition new_shipment ::
  "env \<Rightarrow> request \<Rightarrow> contract \<Rightarrow> shipment_status \<Rightarrow> string option \<Rightarrow> shipment" where
  "new_shipment e req c st reason =
     \<lparr>shipmentId = sid e, s_contractId = r_contractId req, s_contract = oid c,
      s_batteriesShipped = r_batteriesShipped req, s_timestamp = now e,
      s_status = st, initiatedBy = username req, userId = user_id req,
      s_notes = r_notes req, blockReason = reason\<rparr>"

definition storeShipment ::
  "env \<Rightarrow> request \<Rightarrow> contract \<Rightarrow> shipment_status \<Rightarrow> string option \<Rightarrow> int \<Rightarrow>
   ledger \<Rightarrow> world \<Rightarrow> admitted \<times> world" where
  "storeShipment e req c st reason newTotal tx w =
     (let s = new_shipment e req c st reason;
          tx' = tx\<lparr>shipments := shipments tx @ [s]\<rparr>
      in (\<lparr>a_shipment = s, a_contract = c, a_newTotal = newTotal\<rparr>,
          logev [SaveShipment, CommitTransaction] (w\<lparr>db := tx'\<rparr>)))"

text \<open>
  Lines 306 to 343: the decision and the writes of the transaction, for the contract \<open>c\<close>
  that was read. The sum and the comparison are those of Numbers. Nothing of the
  transaction is stored when an error is thrown. \<open>others\<close> is what other clients commit
  between this request's read of the contract and its conditional update (the manual lock
  route, for one, takes no Redis lock); it is the identity for a request that runs alone.
\<close>

definition writeLedger ::
  "(ledger \<Rightarrow> ledger) \<Rightarrow> env \<Rightarrow> request \<Rightarrow> contract \<Rightarrow> world \<Rightarrow>
   (string \<times> world) + (admitted \<times> world)" where
  "writeLedger others e req c w1 =
     (let newTotal = js_add (batteriesShipped c) (r_batteriesShipped req);
          wouldExceed = newTotal > threshold c
      in if wouldExceed
         then (let reason = block_reason newTotal (threshold c);
                   c' = c\<lparr>isLocked := True, lastUpdated := now e\<rparr>;
                   w2 = logev [SaveContract] w1
               in case save_existing (db w2) c'
                         (\<lambda>d. d\<lparr>isLocked := True, lastUpdated := now e\<rparr>) of
                    None \<Rightarrow> Inl (''DocumentNotFoundError'', w2)
                  | Some tx \<Rightarrow>
                      Inr (storeShipment e req c' BLOCKED (Some reason) newTotal tx w2))
         else (let w2 = logev [ShipBatteries] (w1\<lparr>db := others (db w1)\<rparr>)
               in case shipBatteries (db w2) c (r_batteriesShipped req) (now e) of
                    None \<Rightarrow> Inl (''ATOMIC_UPDATE_FAILED'', w2)
                  | Some (updated, tx) \<Rightarrow>
                      Inr (storeShipment e req c APPROVED None newTotal tx w2)))"

text \<open>
  Lines 294 to 344, the body of the inner \<open>try\<close> up to the first release of the lock.
\<close>

definition admit ::
  "(ledger \<Rightarrow> ledger) \<Rightarrow> env \<Rightarrow> request \<Rightarrow> string \<Rightarrow> world \<Rightarrow>
   (string \<times> world) + (admitted \<times> world)" where
  "admit others e req lockKey w =
     (case loadContract req w of
        Inl thrown \<Rightarrow> Inl thrown
      | Inr (c, w1) \<Rightarrow>
          (case writeLedger others e req c w1 of
             Inl thrown \<Rightarrow> Inl thrown
           | Inr (a, w2) \<Rightarrow> Inr (a, release lockKey w2)))"

text \<open>Lines 374 to 402 and 427: the broadcasts, the response, the two \<open>finally\<close> blocks.\<close>

definition respond :: "admitted \<Rightarrow> string \<Rightarrow> world \<Rightarrow> response \<times> world" where
  "respond a lockKey w =
     (let s = a_shipment a;
          blocked = (s_status s = BLOCKED);
          w1 = logev (Emit ''shipment:created'' #
                      (if blocked then [Emit ''contract:threshold_exceeded''] else [])) w;
          res = Created (''Shipment '' @ toLowerCase_status (s_status s) @ '' successfully'') s
                  (if blocked then Some ''Shipment blocked due to threshold exceeded'' else None)
      in (res, logev [EndSession] (release lockKey w1)))"

text \<open>
  Lines 346 to 372. The notification record is pushed and saved by the document's own
  \<open>save()\<close>; \<open>Inl\<close> is that save rejecting. A failing mail transport is logged by the
  mail service and again by the handler, and goes no further.
\<close>

definition notify :: "env \<Rightarrow> request \<Rightarrow> admitted \<Rightarrow> world \<Rightarrow> world + world" where
  "notify e req a w =
     (let w1 = logev [Populate] w in
      if s_status (a_shipment a) = BLOCKED
      then (case addNotification (db w1) (a_contract a) (user_email req)
                   (notification_message (r_contractId req)) ''THRESHOLD_EXCEEDED'' (now e) of
              None \<Rightarrow> Inl (logev [AddNotification] w1)
            | Some l \<Rightarrow>
                (let w2 = logev [AddNotification] (w1\<lparr>db := l\<rparr>)
                 in Inr (logev (SendEmail #
                                (if emailOk e then []
                                 else [ConsoleError ''Email sending failed:'',
                                       ConsoleError ''Email notification failed:''])) w2)))
      else Inr w1)"

text \<open>
  An error thrown after the commit: the inner \<open>finally\<close> releases the lock, and the outer
  handler's \<open>abortTransaction\<close> throws in its turn (the transaction has committed), so no
  response is sent.
\<close>

definition rejected :: "string \<Rightarrow> world \<Rightarrow> response \<times> world" where
  "rejected lockKey w = (NoResponse, logev [AbortTransaction, EndSession] (release lockKey w))"

text \<open>Lines 346 to 402 and 427: what follows the first release of the lock.\<close>

definition afterCommit ::
  "env \<Rightarrow> request \<Rightarrow> string \<Rightarrow> admitted \<Rightarrow> world \<Rightarrow> response \<times> world" where
  "afterCommit e req lockKey a w =
     (case notify e req a w of
        Inl w1 \<Rightarrow> rejected lockKey w1
      | Inr w1 \<Rightarrow> respond a lockKey w1)"

text \<open>
  The inner \<open>finally\<close> and the outer \<open>catch\<close> for an error thrown before the commit
  (lines 400 to 428): the lock is released, the transaction aborted, the error logged and
  answered.
\<close>

definition errorResponse :: "string \<Rightarrow> response" where
  "errorResponse msg =
     (if msg = ''CONTRACT_NOT_FOUND''
      then Failure 404 ''Contract not found'' ''CONTRACT_NOT_FOUND''
      else if msg = ''CONTRACT_LOCKED''
      then Failure 423 ''Contract is locked. No further shipments allowed.'' ''CONTRACT_LOCKED''
      else Failure 500 ''Failed to create shipment'' ''CREATE_ERROR'')"

definition caught :: "string \<Rightarrow> string \<Rightarrow> world \<Rightarrow> response \<times> world" where
  "caught lockKey msg w =
     (errorResponse msg,
      logev [AbortTransaction, ConsoleError ''Create shipment error:'', EndSession]
        (release lockKey w))"

text \<open>The handler, lines 265 to 429, for a request whose steps nothing interrupts.\<close>

definition createShipment ::
  "(ledger \<Rightarrow> ledger) \<Rightarrow> env \<Rightarrow> request \<Rightarrow> world \<Rightarrow> response \<times> world" where
  "createShipment others e req w0 =
     (case enter e req w0 of
        Inl answer \<Rightarrow> answer
      | Inr w3 \<Rightarrow>
          (let lockKey = ''shipment:'' @ r_contractId req
           in case admit others e req lockKey w3 of
                Inl (msg, w4) \<Rightarrow> caught lockKey msg w4
              | Inr (a, w4) \<Rightarrow> afterCommit e req lockKey a w4))"

text \<open>The machine-readable error code of a response, and whether it reports an approval.\<close>

definition response_code :: "response \<Rightarrow> string option" where
  "response_code res = (case res of Failure st err c \<Rightarrow> Some c | _ \<Rightarrow> None)"

definition outcome :: "response \<Rightarrow> shipment_status option" where
  "outcome res = (case res of Created msg s warn \<Rightarrow> Some (s_status s) | _ \<Rightarrow> None)"

definition response_blockReason :: "response \<Rightarrow> string option" where
  "response_blockReason res = (case res of Created msg s warn \<Rightarrow> blockReason s | _ \<Rightarrow> None)"


section \<open>Requests served concurrently\<close>

text \<open>
  Every \<open>await\<close> of the handler lets the other requests of the server run. A handler in
  flight is its request, its environment and the place it has reached. A step takes it to
  the next place and holds at most one operation on Redis or one write to the ledger. The
  writes of a transaction reach the ledger together, at the commit, and until then no
  other client sees them: the step that writes is the step that commits. A transaction
  that writes a document another one has written since it started is refused by the
  storage engine with a write conflict, which is thrown to the handler;
  \<open>h_writeConflict\<close> says that this happens to the handler's write. A write that is not
  refused is evaluated on the stored document. The clock of a handler stays the one it
  read when it started.
\<close>

datatype place =
    AtStart
  | HasLock
  | HasContract contract
  | HasCommitted admitted
  | HasReleased admitted
  | HasNotified admitted
  | HasThrown string
  | HasRejected
  | Answered response

record handler =
  h_env :: env
  h_req :: request
  h_writeConflict :: bool
  h_at :: place

text \<open>
  One step of a handler: lines 266 to 292, lines 296 to 304, lines 306 to 343, line 344,
  lines 347 to 372, lines 375 to 402 and 427; for a thrown error lines 400 to 428. An
  answered handler stays where it is.
\<close>

definition advance :: "handler \<Rightarrow> world \<Rightarrow> place \<times> world" where
  "advance h w =
     (let e = h_env h; req = h_req h; lockKey = ''shipment:'' @ r_contractId req in
      case h_at h of
        AtStart \<Rightarrow>
          (case enter e req w of
             Inl (res, w') \<Rightarrow> (Answered res, w')
           | Inr w' \<Rightarrow> (HasLock, w'))
      | HasLock \<Rightarrow>
          (case loadContract req w of
             Inl (msg, w') \<Rightarrow> (HasThrown msg, w')
           | Inr (c, w') \<Rightarrow> (HasContract c, w'))
      | HasContract c \<Rightarrow>
          if h_writeConflict h then (HasThrown ''WriteConflict'', w)
          else (case writeLedger (\<lambda>l. l) e req c w of
                  Inl (msg, w') \<Rightarrow> (HasThrown msg, w')
                | Inr (a, w') \<Rightarrow> (HasCommitted a, w'))
      | HasCommitted a \<Rightarrow> (HasReleased a, release lockKey w)
      | HasReleased a \<Rightarrow>
          (case notify e req a w of
             Inl w' \<Rightarrow> (HasRejected, w')
           | Inr w' \<Rightarrow> (HasNotified a, w'))
      | HasNotified a \<Rightarrow> (let (res, w') = respond a lockKey w in (Answered res, w'))
      | HasThrown msg \<Rightarrow> (let (res, w') = caught lockKey msg w in (Answered res, w'))
      | HasRejected \<Rightarrow> (let (res, w') = rejected lockKey w in (Answered res, w'))
      | Answered res \<Rightarrow> (Answered res, w))"

text \<open>
  The server with its handlers in flight. A schedule names, step by step, the handler that
  runs next; a number that names no handler does nothing.
\<close>

definition step :: "nat \<Rightarrow> world \<times> handler list \<Rightarrow> world \<times> handler list" where
  "step i cfg =
     (let (w, hs) = cfg in
      if i < length hs
      then (let (p, w') = advance (hs ! i) w in (w', hs[i := (hs ! i)\<lparr>h_at := p\<rparr>]))
      else cfg)"

fun exec :: "nat list \<Rightarrow> world \<times> handler list \<Rightarrow> world \<times> handler list" where
  "exec [] cfg = cfg"
| "exec (i # sched) cfg = exec sched (step i cfg)"


definition h_outcome :: "handler \<Rightarrow> shipment_status option" where
  "h_outcome h = (case h_at h of Answered res \<Rightarrow> outcome res | _ \<Rightarrow> None)"







section \<open>The manual lock route (src/unnamed/part_002, lines 186 to 235)\<close>

text \<open>
  What the route commits for the contract \<open>cid\<close>: \<open>flag\<close> is the body's \<open>isLocked\<close>
  (\<open>None\<close> when it is absent), \<open>reason\<close> the body's reason (empty when it is absent),
  \<open>t\<close> the time of the save. The notification is pushed and saved together with the new
  \<open>isLocked\<close>; the route's second \<open>save()\<close> has nothing left to write but \<open>lastUpdated\<close>,
  at the same time here. Without the contract the route writes nothing.
\<close>

definition toggleLock ::
  "string \<Rightarrow> bool option \<Rightarrow> string \<Rightarrow> string \<Rightarrow> string \<Rightarrow> nat \<Rightarrow> ledger \<Rightarrow> ledger" where
  "toggleLock cid flag reason uname uemail t l =
     (case findOneContract l cid of
        None \<Rightarrow> l
      | Some c \<Rightarrow>
          (let locked = (case flag of Some b \<Rightarrow> b | None \<Rightarrow> \<not> isLocked c);
               msg = (if locked
                      then ''Contract manually locked by '' @ uname @
                           (if reason = [] then [] else '': '' @ reason)
                      else ''Contract unlocked by '' @ uname);
               ty = (if locked then ''CONTRACT_LOCKED'' else ''CONTRACT_UNLOCKED'')
           in case save_existing l c
                     (\<lambda>d. d\<lparr>isLocked := locked,
                            notificationsSent := notificationsSent d @
                              [\<lparr>email = uemail, message = msg, ntype = ty, timestamp = t\<rparr>],
                            lastUpdated := t\<rparr>) of
                None \<Rightarrow> l
              | Some l' \<Rightarrow> l'))"


section \<open>Example states\<close>

text \<open>
  The concrete contracts, requests and worlds at which the theorems below are
  instantiated: a contract at 85 of 100, a contract at 55 of 60 stored under its key, a
  reachable Redis server with no entry, and requests of user \<open>alice\<close> for that contract.
\<close>

definition example_contract :: contract where
  "example_contract =
     \<lparr>oid = 1, contractId = ''PBR-2024-001'', deviceCount = 100, batteriesShipped = 85,
      threshold = 100, isLocked = False, lastUpdated = 0, notificationsSent = []\<rparr>"

definition c55 :: contract where
  "c55 =
     \<lparr>oid = 7, contractId = ''PBR-2'', deviceCount = 50, batteriesShipped = 55,
      threshold = 60, isLocked = False, lastUpdated = 0, notificationsSent = []\<rparr>"

definition redis0 :: redis_client where
  "redis0 = \<lparr>up = True, entries = Map.empty\<rparr>"

definition world0 :: world where
  "world0 =
     \<lparr>redisClient = redis0,
      db = \<lparr>contracts = [''PBR-2'' \<mapsto> c55], shipments = []\<rparr>,
      trace = []\<rparr>"

definition user_req :: "int \<Rightarrow> request" where
  "user_req q =
     \<lparr>r_contractId = ''PBR-2'', r_batteriesShipped = q, r_notes = None,
      username = ''alice'', user_email = ''alice@example.com'', user_id = 3\<rparr>"

definition env0 :: env where
  "env0 = \<lparr>now = 1000, rnd = ''0.5'', sid = ''SHP-1'', emailOk = False\<rparr>"

definition env1 :: env where
  "env1 = \<lparr>now = 2000, rnd = ''0.7'', sid = ''SHP-2'', emailOk = True\<rparr>"

text \<open>The lock of the contract taken by another request at time 500, for ten seconds.\<close>

definition world_held :: world where
  "world_held =
     world0\<lparr>redisClient := client (acquireLock redis0 ''shipment:PBR-2'' 10000 500 ''0.1'')\<rparr>"

definition world_locked :: world where
  "world_locked =
     world0\<lparr>db := \<lparr>contracts = [''PBR-2'' \<mapsto> c55\<lparr>isLocked := True\<rparr>], shipments = []\<rparr>\<rparr>"

text \<open>
  The administrator locks the contract at time 1500, through the manual lock route.
\<close>

definition manual_lock :: "ledger \<Rightarrow> ledger" where
  "manual_lock = toggleLock ''PBR-2'' (Some True) [] ''admin'' ''admin@example.com'' 1500"

text \<open>
  Holder A takes the lock at time 0 for ten seconds and is stuck; at time 10001 the entry
  has expired and holder B takes the lock.
\<close>

definition redis_A :: redis_client where
  "redis_A = client (acquireLock redis0 ''shipment:PBR-2'' 10000 0 ''0.1'')"

definition redis_B :: redis_client where
  "redis_B = client (acquireLock redis_A ''shipment:PBR-2'' 10000 10001 ''0.2'')"

text \<open>
  Two requests for five batteries each. The handler of the first takes the lock at time 0
  and is slow; the handler of the second starts at time 10001, when the entry has expired.
  In the schedule both have read the contract before either writes, and the second commits
  first: the write of the first then meets a document written since its transaction
  started, a write conflict. \<open>handlers_AB_quiet\<close> are the same handlers on a ledger that
  reports no such conflict.
\<close>

definition env_A :: env where
  "env_A = \<lparr>now = 0, rnd = ''0.1'', sid = ''SHP-A'', emailOk = False\<rparr>"

definition env_B :: env where
  "env_B = \<lparr>now = 10001, rnd = ''0.2'', sid = ''SHP-B'', emailOk = False\<rparr>"

definition handlers_AB :: "handler list" where
  "handlers_AB =
     [\<lparr>h_env = env_A, h_req = user_req 5, h_writeConflict = True, h_at = AtStart\<rparr>,
      \<lparr>h_env = env_B, h_req = user_req 5, h_writeConflict = False, h_at = AtStart\<rparr>]"

definition handlers_AB_quiet :: "handler list" where
  "handlers_AB_quiet = map (\<lambda>h. h\<lparr>h_writeConflict := False\<rparr>) handlers_AB"

definition overlapping :: "nat list" where
  "overlapping = [0, 0, 1, 1, 1, 0, 0, 1, 1, 1]"

text \<open>
  Three requests for one battery each, within a fifth of a second. The first handler has
  released the lock after its commit when the second takes the lock and reads the
  contract; then the first sends its response and releases the lock once more, and the
  third starts.
\<close>

definition env_C :: env where
  "env_C = \<lparr>now = 100, rnd = ''0.3'', sid = ''SHP-C'', emailOk = False\<rparr>"

definition env_D :: env where
  "env_D = \<lparr>now = 200, rnd = ''0.4'', sid = ''SHP-D'', emailOk = False\<rparr>"

definition handlers_ACD :: "handler list" where
  "handlers_ACD =
     [\<lparr>h_env = env_A, h_req = user_req 1, h_writeConflict = False, h_at = AtStart\<rparr>,
      \<lparr>h_env = env_C, h_req = user_req 1, h_writeConflict = False, h_at = AtStart\<rparr>,
      \<lparr>h_env = env_D, h_req = user_req 1, h_writeConflict = False, h_at = AtStart\<rparr>]"

definition relay :: "nat list" where
  "relay = [0, 0, 0, 0, 0, 1, 1, 0, 2]"






text \<open>
  The contract with the smallest threshold at which the rounding of the percentage shows:
  its quotient is below \<open>0.8\<close>.
\<close>

definition c_rounded :: contract where
  "c_rounded =
     \<lparr>oid = 2, contractId = ''PBR-3'', deviceCount = 1, batteriesShipped = 1310138073416875,
      threshold = 1637672591771094, isLocked = False, lastUpdated = 0, notificationsSent = []\<rparr>"


section \<open>Rounding to a double\<close>

lemma bitlen_bounds_int:
  "0 < n \<Longrightarrow> 1 \<le> bitlen n \<and> 2 ^ nat (bitlen n - 1) \<le> n \<and> n < 2 ^ nat (bitlen n)"
proof (induction n rule: bitlen.induct)
  case (1 n)
  from "1.prems" have b: "bitlen n = 1 + bitlen (n div 2)"
    by (subst bitlen.simps) simp
  show ?case
  proof (cases "n = 1")
    case True
    then have "bitlen n = 1" by (simp add: b bitlen.simps)
    with True show ?thesis by simp
  next
    case False
    with "1.prems" have m: "0 < n div 2" by simp
    from "1.prems" have "\<not> n \<le> 0" by simp
    from "1.IH" [OF this m] have k: "1 \<le> bitlen (n div 2)"
      and lo: "2 ^ nat (bitlen (n div 2) - 1) \<le> n div 2"
      and hi: "n div 2 < 2 ^ nat (bitlen (n div 2))" by simp_all
    from k have e: "nat (bitlen (n div 2)) = Suc (nat (bitlen (n div 2) - 1))" by simp
    have "(2::int) ^ nat (bitlen n - 1) = 2 * 2 ^ nat (bitlen (n div 2) - 1)"
      using e by (simp add: b)
    also have "\<dots> \<le> 2 * (n div 2)" using lo by simp
    also have "\<dots> \<le> n" by simp
    finally have l: "2 ^ nat (bitlen n - 1) \<le> n" .
    have "n < 2 * (n div 2 + 1)" by simp
    also have "\<dots> \<le> 2 * 2 ^ nat (bitlen (n div 2))" using hi by simp
    also have "\<dots> = 2 ^ nat (bitlen n)" using k by (simp add: b nat_add_distrib)
    finally have "n < 2 ^ nat (bitlen n)" .
    with l k b show ?thesis by simp
  qed
qed

lemma bitlen_bounds:
  assumes "0 < n"
  shows "(2::rat) powi (bitlen n - 1) \<le> of_int n" and "of_int n < (2::rat) powi bitlen n"
proof -
  from bitlen_bounds_int [OF assms] have k: "1 \<le> bitlen n"
    and lo: "2 ^ nat (bitlen n - 1) \<le> n" and hi: "n < 2 ^ nat (bitlen n)" by simp_all
  from lo have "(of_int (2 ^ nat (bitlen n - 1)) :: rat) \<le> of_int n" by (simp only: of_int_le_iff)
  then show "(2::rat) powi (bitlen n - 1) \<le> of_int n"
    using k by (simp add: power_int_nonneg_exp)
  from hi have "(of_int n :: rat) < of_int (2 ^ nat (bitlen n))" by (simp only: of_int_less_iff)
  then show "of_int n < (2::rat) powi bitlen n"
    using k by (simp add: power_int_nonneg_exp)
qed

lemma binade_bounds:
  assumes "0 < x"
  shows "2 powi binade x \<le> x" and "x < 2 powi (binade x + 1)"
proof -
  obtain p q where pq: "quotient_of x = (p, q)" by (cases "quotient_of x")
  then have q: "0 < q" by (rule quotient_of_denom_pos)
  from pq have x: "x = of_int p / of_int q" by (rule quotient_of_div)
  with assms q have p: "0 < p" by (simp add: zero_less_divide_iff)
  let ?d = "bitlen p - bitlen q"
  have qr: "(0::rat) < of_int q" using q by simp
  have pw: "(0::rat) < 2 powi k" for k by (rule zero_less_power_int) simp
  have "x < 2 powi bitlen p / of_int q"
    unfolding x using bitlen_bounds(2) [OF p] qr by (simp add: divide_strict_right_mono)
  also have "\<dots> \<le> 2 powi bitlen p / 2 powi (bitlen q - 1)"
    using bitlen_bounds(1) [OF q] qr pw by (intro divide_left_mono) auto
  also have "\<dots> = 2 powi (?d + 1)"
    by (simp add: power_int_diff power_int_add)
  finally have hi: "x < 2 powi (?d + 1)" .
  have "(2::rat) powi (?d - 1) = 2 powi (bitlen p - 1) / 2 powi bitlen q"
    by (simp add: power_int_diff)
  also have "\<dots> \<le> of_int p / 2 powi bitlen q"
    using bitlen_bounds(1) [OF p] by (simp add: divide_right_mono)
  also have "\<dots> \<le> of_int p / of_int q"
    using bitlen_bounds(2) [OF q] p qr pw by (intro divide_left_mono) auto
  finally have lo: "2 powi (?d - 1) \<le> x" unfolding x .
  show "2 powi binade x \<le> x"
    using lo by (simp add: binade_def pq Let_def)
  show "x < 2 powi (binade x + 1)"
    using hi by (auto simp add: binade_def pq Let_def)
qed


lemma powi_less_imp_less:
  assumes "(2::rat) powi a < 2 powi b"
  shows "a < b"
proof (rule ccontr)
  assume "\<not> a < b"
  then have "b \<le> a" by simp
  then have "(2::rat) powi b \<le> 2 powi a" by (rule power_int_increasing) simp
  with assms show False by simp
qed

lemma binade_unique:
  assumes "0 < x" and "2 powi e \<le> x" and "x < 2 powi (e + 1)"
  shows "binade x = e"
proof -
  note b = binade_bounds [OF assms(1)]
  from b(1) assms(3) have "(2::rat) powi binade x < 2 powi (e + 1)" by simp
  then have 1: "binade x < e + 1" by (rule powi_less_imp_less)
  from assms(2) b(2) have "(2::rat) powi e < 2 powi (binade x + 1)" by simp
  then have 2: "e < binade x + 1" by (rule powi_less_imp_less)
  from 1 2 show ?thesis by simp
qed

lemma rne_of_int [simp]: "rne (of_int n) = n"
  by (simp add: rne_def)

lemma rne_mono: "x \<le> y \<Longrightarrow> rne x \<le> rne y"
proof -
  assume xy: "x \<le> y"
  then have f: "\<lfloor>x\<rfloor> \<le> \<lfloor>y\<rfloor>" by (rule floor_mono)
  have ux: "rne x \<le> \<lfloor>x\<rfloor> + 1" and ly: "\<lfloor>y\<rfloor> \<le> rne y"
    by (simp_all add: rne_def Let_def)
  show ?thesis
  proof (cases "\<lfloor>x\<rfloor> = \<lfloor>y\<rfloor>")
    case True
    with xy show ?thesis by (auto simp: rne_def Let_def)
  next
    case False
    with f have "\<lfloor>x\<rfloor> + 1 \<le> \<lfloor>y\<rfloor>" by simp
    with ux ly show ?thesis by simp
  qed
qed

lemma rne_minus: "rne (- x) = - rne x"
proof (cases "x = of_int \<lfloor>x\<rfloor>")
  case True
  then obtain n where "x = of_int n" ..
  then show ?thesis by (simp del: of_int_minus add: of_int_minus [symmetric])
next
  case False
  then have c: "\<lceil>x\<rceil> = \<lfloor>x\<rfloor> + 1"
    by (simp only: ceiling_altdef if_False)
  have fl: "\<lfloor>- x\<rfloor> = - \<lfloor>x\<rfloor> - 1"
    unfolding floor_minus c by simp
  have "of_int \<lfloor>x\<rfloor> \<le> x" by (rule of_int_floor_le)
  with False have lt: "of_int \<lfloor>x\<rfloor> < x"
    by (metis order.not_eq_order_implies_strict)
  show ?thesis
    using lt by (auto simp: rne_def Let_def fl)
qed


lemma double_of_minus: "double_of (- x) = - double_of x"
  by (simp add: double_of_def Let_def rne_minus)

lemma double_of_eval:
  assumes "0 < x" and "2 powi e \<le> x" and "x < 2 powi (e + 1)"
  shows "double_of x = of_int (rne (x / 2 powi (e - 52))) * 2 powi (e - 52)"
  using assms binade_unique [OF assms] by (simp add: double_of_def Let_def)

lemma double_of_range:
  assumes "0 < x"
  shows "2 powi binade x \<le> double_of x" and "double_of x \<le> 2 powi (binade x + 1)"
proof -
  let ?u = "(2::rat) powi (binade x - 52)"
  have u: "0 < ?u" by (rule zero_less_power_int) simp
  note b = binade_bounds [OF assms]
  have d: "double_of x = of_int (rne (x / ?u)) * ?u"
    using assms by (simp add: double_of_def Let_def)
  have lo: "(2::rat) powi binade x = of_int (2 ^ 52) * ?u"
    by (simp add: power_int_diff)
  have hi: "(2::rat) powi (binade x + 1) = of_int (2 ^ 53) * ?u"
    by (simp add: power_int_diff power_int_add)
  from b(1) u have "of_int (2 ^ 52) \<le> x / ?u"
    unfolding lo by (simp add: pos_le_divide_eq)
  from rne_mono [OF this] have "2 ^ 52 \<le> rne (x / ?u)" by (simp only: rne_of_int)
  then have "(of_int (2 ^ 52) :: rat) \<le> of_int (rne (x / ?u))" by (simp only: of_int_le_iff)
  with u show "2 powi binade x \<le> double_of x"
    unfolding d lo by (simp only: mult_le_cancel_right_pos)
  from b(2) u have "x / ?u \<le> of_int (2 ^ 53)"
    unfolding hi by (simp add: pos_divide_le_eq less_imp_le)
  from rne_mono [OF this] have "rne (x / ?u) \<le> 2 ^ 53" by (simp only: rne_of_int)
  then have "(of_int (rne (x / ?u)) :: rat) \<le> of_int (2 ^ 53)" by (simp only: of_int_le_iff)
  with u show "double_of x \<le> 2 powi (binade x + 1)"
    unfolding d hi by (simp only: mult_le_cancel_right_pos)
qed

lemma double_of_pos: "0 < x \<Longrightarrow> 0 < double_of x"
proof -
  assume x: "0 < x"
  have "(0::rat) < 2 powi binade x" by (rule zero_less_power_int) simp
  also note double_of_range(1) [OF x]
  finally show ?thesis .
qed

lemma double_of_mono_pos:
  assumes "0 < x" and "x \<le> y"
  shows "double_of x \<le> double_of y"
proof -
  from assms have y: "0 < y" by simp
  note bx = binade_bounds [OF assms(1)] and bb = binade_bounds [OF y]
  from bx(1) assms(2) bb(2) have "(2::rat) powi binade x < 2 powi (binade y + 1)" by simp
  then have le: "binade x \<le> binade y" using powi_less_imp_less by fastforce
  show ?thesis
  proof (cases "binade x = binade y")
    case True
    let ?u = "(2::rat) powi (binade y - 52)"
    have u: "0 < ?u" by (rule zero_less_power_int) simp
    from assms(2) u have "x / ?u \<le> y / ?u" by (simp add: divide_right_mono)
    from rne_mono [OF this] have "(of_int (rne (x / ?u)) :: rat) \<le> of_int (rne (y / ?u))"
      by (simp only: of_int_le_iff)
    with u have "of_int (rne (x / ?u)) * ?u \<le> of_int (rne (y / ?u)) * ?u"
      by (simp only: mult_le_cancel_right_pos)
    then show ?thesis
      using assms(1) y True by (simp add: double_of_def Let_def)
  next
    case False
    with le have "binade x + 1 \<le> binade y" by simp
    then have "(2::rat) powi (binade x + 1) \<le> 2 powi binade y"
      by (rule power_int_increasing) simp
    with double_of_range(2) [OF assms(1)] double_of_range(1) [OF y] show ?thesis by simp
  qed
qed

lemma double_of_zero [simp]: "double_of 0 = 0"
  by (simp add: double_of_def)

lemma double_of_mono: "x \<le> y \<Longrightarrow> double_of x \<le> double_of y"
proof -
  assume xy: "x \<le> y"
  consider "0 < x" | "x \<le> 0" "0 < y" | "x < 0" "y = 0" | "x = 0" "y = 0" | "y < 0"
    using xy by force
  then show ?thesis
  proof cases
    case 1
    with xy show ?thesis by (simp add: double_of_mono_pos)
  next
    case 2
    have "double_of x \<le> 0"
    proof (cases "x = 0")
      case True then show ?thesis by simp
    next
      case False
      with 2 have "0 < - x" by simp
      from double_of_pos [OF this] show ?thesis by (simp add: double_of_minus)
    qed
    also have "0 \<le> double_of y" using double_of_pos [OF 2(2)] by simp
    finally show ?thesis .
  next
    case 3
    then have "0 < - x" by simp
    from double_of_pos [OF this] 3 show ?thesis by (simp add: double_of_minus)
  next
    case 4
    then show ?thesis by simp
  next
    case 5
    with xy have "0 < - y" "- y \<le> - x" by simp_all
    from double_of_mono_pos [OF this] show ?thesis by (simp add: double_of_minus)
  qed
qed


lemma percent_mono: "x \<le> y \<Longrightarrow> percent x \<le> percent y"
  unfolding percent_def by (intro double_of_mono mult_right_mono) simp_all

lemma percent_at_1: "percent 1 = 100"
  unfolding percent_def by code_simp

lemma percent_below_1: "percent (1 - 1 / 2 ^ 53) < 100"
  unfolding percent_def by code_simp

lemma percent_at_08: "percent (4 / 5) = 80"
  unfolding percent_def by code_simp

lemma percent_below_08: "percent (4 / 5 - 1 / (5 * 1637672591771089)) < 80"
  unfolding percent_def by code_simp

lemma percent_last_four:
  shows "percent (1310138073416871 / 1637672591771090) < 80"
    and "percent (1310138073416872 / 1637672591771091) < 80"
    and "percent (1310138073416873 / 1637672591771092) < 80"
    and "percent (1310138073416874 / 1637672591771093) < 80"
  unfolding percent_def by code_simp+

lemma percent_first_rounded: "percent (1310138073416875 / 1637672591771094) = 80"
  unfolding percent_def by code_simp

lemma double_of_2_53: "double_of (2 ^ 53) = 2 ^ 53"
  by code_simp

lemma percent_ge_100_iff:
  assumes "1 \<le> t" and "t \<le> 2 ^ 53"
  shows "(100 \<le> percent (of_int b / of_int t)) = (1 \<le> (of_int b / of_int t :: rat))"
proof (cases "t \<le> b")
  case True
  with assms have "(1::rat) \<le> of_int b / of_int t" by (simp add: pos_le_divide_eq)
  with percent_mono [OF this] show ?thesis by (simp add: percent_at_1)
next
  case False
  then have "b \<le> t - 1" by simp
  then have "(of_int b :: rat) \<le> of_int (t - 1)" by (simp only: of_int_le_iff)
  with assms have "(of_int b / of_int t :: rat) \<le> (of_int t - 1) / of_int t"
    by (simp add: divide_right_mono)
  also have "\<dots> = 1 - 1 / of_int t" using assms by (simp add: diff_divide_distrib)
  also have "\<dots> \<le> 1 - 1 / 2 ^ 53"
  proof -
    from assms(2) have "(of_int t :: rat) \<le> of_int (2 ^ 53)" by (simp only: of_int_le_iff)
    with assms(1) have "1 / (2 ^ 53 :: rat) \<le> 1 / of_int t"
      by (intro divide_left_mono) simp_all
    then show ?thesis by simp
  qed
  finally have "percent (of_int b / of_int t) \<le> percent (1 - 1 / 2 ^ 53)"
    by (rule percent_mono)
  with percent_below_1 have "\<not> 100 \<le> percent (of_int b / of_int t)" by simp
  moreover from False assms have "\<not> (1::rat) \<le> of_int b / of_int t"
    by (simp add: pos_le_divide_eq)
  ultimately show ?thesis by simp
qed

lemma percent_lt_80:
  assumes "1 \<le> t" and "t < 1637672591771094" and "\<not> 4 * t \<le> 5 * b"
  shows "percent (of_int b / of_int t) < 80"
proof (cases "t \<le> 1637672591771089")
  case True
  from assms(3) have "5 * b \<le> 4 * t - 1" by simp
  then have "(of_int (5 * b) :: rat) \<le> of_int (4 * t - 1)" by (simp only: of_int_le_iff)
  with assms have "(of_int b / of_int t :: rat) \<le> (4 * of_int t - 1) / (5 * of_int t)"
    by (simp add: field_simps)
  also have "\<dots> = 4 / 5 - 1 / (5 * of_int t)" using assms by (simp add: field_simps)
  also have "\<dots> \<le> 4 / 5 - 1 / (5 * 1637672591771089)"
  proof -
    from True have "(of_int t :: rat) \<le> of_int 1637672591771089" by (simp only: of_int_le_iff)
    with assms(1) have "1 / (5 * 1637672591771089 :: rat) \<le> 1 / (5 * of_int t)"
      by (intro divide_left_mono) simp_all
    then show ?thesis by simp
  qed
  finally have "percent (of_int b / of_int t) \<le> percent (4 / 5 - 1 / (5 * 1637672591771089))"
    by (rule percent_mono)
  with percent_below_08 show ?thesis by simp
next
  case False
  with assms(2) consider "t = 1637672591771090" | "t = 1637672591771091"
    | "t = 1637672591771092" | "t = 1637672591771093" by linarith
  then show ?thesis
  proof cases
    case 1
    with assms(3) have "b \<le> 1310138073416871" by simp
    then have "(of_int b :: rat) \<le> of_int 1310138073416871" by (simp only: of_int_le_iff)
    then have "(of_int b / of_int t :: rat) \<le> 1310138073416871 / 1637672591771090"
      unfolding 1 by (simp add: divide_right_mono)
    from percent_mono [OF this] percent_last_four(1) show ?thesis by simp
  next
    case 2
    with assms(3) have "b \<le> 1310138073416872" by simp
    then have "(of_int b :: rat) \<le> of_int 1310138073416872" by (simp only: of_int_le_iff)
    then have "(of_int b / of_int t :: rat) \<le> 1310138073416872 / 1637672591771091"
      unfolding 2 by (simp add: divide_right_mono)
    from percent_mono [OF this] percent_last_four(2) show ?thesis by simp
  next
    case 3
    with assms(3) have "b \<le> 1310138073416873" by simp
    then have "(of_int b :: rat) \<le> of_int 1310138073416873" by (simp only: of_int_le_iff)
    then have "(of_int b / of_int t :: rat) \<le> 1310138073416873 / 1637672591771092"
      unfolding 3 by (simp add: divide_right_mono)
    from percent_mono [OF this] percent_last_four(3) show ?thesis by simp
  next
    case 4
    with assms(3) have "b \<le> 1310138073416874" by simp
    then have "(of_int b :: rat) \<le> of_int 1310138073416874" by (simp only: of_int_le_iff)
    then have "(of_int b / of_int t :: rat) \<le> 1310138073416874 / 1637672591771093"
      unfolding 4 by (simp add: divide_right_mono)
    from percent_mono [OF this] percent_last_four(4) show ?thesis by simp
  qed
qed

lemma percent_ge_80_iff:
  assumes "1 \<le> t" and "t < 1637672591771094"
  shows "(80 \<le> percent (of_int b / of_int t)) = (4 / 5 \<le> (of_int b / of_int t :: rat))"
proof (cases "4 * t \<le> 5 * b")
  case True
  then have "(of_int (4 * t) :: rat) \<le> of_int (5 * b)" by (simp only: of_int_le_iff)
  with assms have "(4 / 5 :: rat) \<le> of_int b / of_int t" by (simp add: pos_le_divide_eq)
  with percent_mono [OF this] show ?thesis by (simp add: percent_at_08)
next
  case False
  from percent_lt_80 [OF assms False] have "\<not> 80 \<le> percent (of_int b / of_int t)" by simp
  moreover have "\<not> (4 / 5 :: rat) \<le> of_int b / of_int t"
  proof
    assume "(4 / 5 :: rat) \<le> of_int b / of_int t"
    with assms have "(of_int (4 * t) :: rat) \<le> of_int (5 * b)" by (simp add: pos_le_divide_eq)
    then have "4 * t \<le> 5 * b" by (simp only: of_int_le_iff)
    with False show False by simp
  qed
  ultimately show ?thesis by simp
qed


lemma double_of_int_pos_exact:
  assumes "0 < n" and "n \<le> 2 ^ 53"
  shows "double_of (of_int n) = of_int n"
proof (cases "n = 2 ^ 53")
  case True
  then show ?thesis using double_of_2_53 by simp
next
  case False
  with assms(2) have lt: "n < 2 ^ 53" by simp
  let ?e = "bitlen n - 1"
  note b = bitlen_bounds [OF assms(1)]
  from lt have "(of_int n :: rat) < of_int (2 ^ 53)" by (simp only: of_int_less_iff)
  with b(1) have "(2::rat) powi ?e < 2 powi 53" by simp
  then have e: "?e < 53" by (rule powi_less_imp_less)
  define m where "m = nat (52 - ?e)"
  have u: "(2::rat) powi (?e - 52) = 1 / 2 ^ m"
  proof -
    have "?e - 52 = - int m" using e by (simp add: m_def)
    then show ?thesis by (simp add: power_int_minus_divide)
  qed
  have pos: "(0::rat) < of_int n" using assms(1) by simp
  have hi: "(of_int n :: rat) < 2 powi (?e + 1)" using b(2) by simp
  have "double_of (of_int n) = of_int (rne (of_int n / 2 powi (?e - 52))) * 2 powi (?e - 52)"
    by (rule double_of_eval [OF pos b(1) hi])
  also have "of_int n / (2::rat) powi (?e - 52) = of_int (n * 2 ^ m)"
    unfolding u by simp
  also have "of_int (rne (of_int (n * 2 ^ m))) * (2::rat) powi (?e - 52) = of_int n"
    unfolding u rne_of_int by simp
  finally show ?thesis .
qed

lemma double_of_int_exact:
  assumes "\<bar>n\<bar> \<le> 2 ^ 53"
  shows "double_of (of_int n) = of_int n"
proof -
  consider "0 < n" | "n = 0" | "n < 0" by linarith
  then show ?thesis
  proof cases
    case 1
    with assms show ?thesis by (simp add: double_of_int_pos_exact)
  next
    case 2
    then show ?thesis by simp
  next
    case 3
    with assms have "0 < - n" "- n \<le> 2 ^ 53" by simp_all
    from double_of_int_pos_exact [OF this] show ?thesis
      by (simp add: double_of_minus)
  qed
qed

lemma js_add_exact: "\<bar>a + b\<bar> \<le> 2 ^ 53 \<Longrightarrow> js_add a b = a + b"
proof -
  assume "\<bar>a + b\<bar> \<le> 2 ^ 53"
  from double_of_int_exact [OF this] show ?thesis
    by (simp add: js_add_def)
qed






section \<open>The handler, path by path\<close>

lemma decimal_digits_small: "n < 10 \<Longrightarrow> decimal_digits n acc = digit_char n # acc"
  by (simp add: decimal_digits.simps)

lemma decimal_digits_large:
  "\<not> n < 10 \<Longrightarrow>
   decimal_digits n acc = decimal_digits (n div 10) (digit_char (n mod 10) # acc)"
  by (subst decimal_digits.simps) simp

lemmas print_simps = int_toString_def nat_toString_def decimal_digits_small
  decimal_digits_large digit_char_def


lemmas lock_defs = acquireLock_def releaseLock_def redis_set_nx_px_def redis_del_def redis_get_def

lemma acquireLock_free:
  "up r \<Longrightarrow> redis_get r k t = None \<Longrightarrow>
   acquireLock r k px t rn =
     \<lparr>ok = True, client = r\<lparr>entries := (entries r)(k \<mapsto> (nat_toString t @ ''-'' @ rn, t + px))\<rparr>,
      logged = []\<rparr>"
  by (simp add: acquireLock_def redis_set_nx_px_def)

lemma acquireLock_held:
  "redis_get r k t = Some v \<Longrightarrow>
   acquireLock r k px t rn =
     \<lparr>ok = False, client = r, logged = (if up r then [] else [''Error acquiring lock:''])\<rparr>"
  by (simp add: acquireLock_def redis_set_nx_px_def)

lemma release_up:
  "up (redisClient w) \<Longrightarrow>
   release k w = w\<lparr>redisClient := (redisClient w)\<lparr>entries := (entries (redisClient w))(k := None)\<rparr>,
                   trace := trace w @ [ReleaseLock k]\<rparr>"
  by (simp add: release_def releaseLock_def redis_del_def)

lemma createShipment_invalid:
  "\<not> validationOk req \<Longrightarrow>
   createShipment others e req w = (BadRequest, logev [StartSession, EndSession] w)"
  by (simp add: createShipment_def enter_def caught_def logev_def)

lemma createShipment_held:
  assumes "validationOk req"
    and "redis_get (redisClient w) (''shipment:'' @ r_contractId req) (now e) = Some v"
  shows "createShipment others e req w =
     (Failure 423 ''Another shipment is being processed for this contract. Please try again.''
        ''CONCURRENT_SHIPMENT'',
      logev ([StartSession, StartTransaction,
              AcquireLock (''shipment:'' @ r_contractId req) False] @
             (if up (redisClient w) then [] else [ConsoleError ''Error acquiring lock:'']) @
             [AbortTransaction, EndSession]) w)"
  using assms
  by (simp add: createShipment_def enter_def caught_def logev_def Let_def acquireLock_held [where v = v])

lemma createShipment_acquired:
  assumes "validationOk req" and "up (redisClient w)"
    and "redis_get (redisClient w) (''shipment:'' @ r_contractId req) (now e) = None"
  shows "createShipment others e req w =
     (let lockKey = ''shipment:'' @ r_contractId req;
          w3 = w\<lparr>redisClient := (redisClient w)\<lparr>entries := (entries (redisClient w))
                     (lockKey \<mapsto> (nat_toString (now e) @ ''-'' @ rnd e, now e + 10000))\<rparr>,
                 trace := trace w @ [StartSession, StartTransaction, AcquireLock lockKey True]\<rparr>
      in case admit others e req lockKey w3 of
           Inl (msg, w4) \<Rightarrow> caught lockKey msg w4
         | Inr (a, w4) \<Rightarrow> afterCommit e req lockKey a w4)"
  using assms
  by (simp add: createShipment_def enter_def logev_def Let_def acquireLock_free)


lemma admit_not_found:
  "contracts (db w) (r_contractId req) = None \<Longrightarrow>
   admit others e req k w = Inl (''CONTRACT_NOT_FOUND'', logev [FindContract (r_contractId req)] w)"
  by (simp add: admit_def loadContract_def writeLedger_def findOneContract_def logev_def)

lemma admit_locked:
  "contracts (db w) (r_contractId req) = Some c \<Longrightarrow> isLocked c \<Longrightarrow>
   admit others e req k w = Inl (''CONTRACT_LOCKED'', logev [FindContract (r_contractId req)] w)"
  by (simp add: admit_def loadContract_def writeLedger_def findOneContract_def logev_def)

lemma admit_blocked:
  assumes "contracts (db w) (r_contractId req) = Some c" and "contractId c = r_contractId req"
    and "\<not> isLocked c" and "threshold c < js_add (batteriesShipped c) (r_batteriesShipped req)"
  shows "admit others e req k w =
     Inr (\<lparr>a_shipment = new_shipment e req c BLOCKED
              (Some (block_reason (js_add (batteriesShipped c) (r_batteriesShipped req)) (threshold c))),
           a_contract = c\<lparr>isLocked := True, lastUpdated := now e\<rparr>,
           a_newTotal = js_add (batteriesShipped c) (r_batteriesShipped req)\<rparr>,
          release k
            (w\<lparr>db := (db w)\<lparr>contracts := (contracts (db w))
                          (r_contractId req \<mapsto> c\<lparr>isLocked := True, lastUpdated := now e\<rparr>),
                        shipments := shipments (db w) @
                          [new_shipment e req c BLOCKED
                             (Some (block_reason (js_add (batteriesShipped c) (r_batteriesShipped req))
                                      (threshold c)))]\<rparr>,
               trace := trace w @ [FindContract (r_contractId req), SaveContract, SaveShipment,
                                   CommitTransaction]\<rparr>))"
  using assms
  by (simp add: admit_def loadContract_def writeLedger_def findOneContract_def logev_def Let_def save_existing_def
      storeShipment_def new_shipment_def)

lemma admit_approved:
  assumes "contracts (db w) (r_contractId req) = Some c"
    and "\<not> isLocked c" and "js_add (batteriesShipped c) (r_batteriesShipped req) \<le> threshold c"
    and "shipBatteries (others (db w)) c (r_batteriesShipped req) (now e) = Some (d, tx)"
  shows "admit others e req k w =
     Inr (\<lparr>a_shipment = new_shipment e req c APPROVED None, a_contract = c,
           a_newTotal = js_add (batteriesShipped c) (r_batteriesShipped req)\<rparr>,
          release k
            (w\<lparr>db := tx\<lparr>shipments := shipments tx @ [new_shipment e req c APPROVED None]\<rparr>,
               trace := trace w @ [FindContract (r_contractId req), ShipBatteries, SaveShipment,
                                   CommitTransaction]\<rparr>))"
  using assms
  by (simp add: admit_def loadContract_def writeLedger_def findOneContract_def logev_def Let_def storeShipment_def)

lemma admit_conflict:
  assumes "contracts (db w) (r_contractId req) = Some c"
    and "\<not> isLocked c" and "js_add (batteriesShipped c) (r_batteriesShipped req) \<le> threshold c"
    and "shipBatteries (others (db w)) c (r_batteriesShipped req) (now e) = None"
  shows "admit others e req k w =
     Inl (''ATOMIC_UPDATE_FAILED'',
          w\<lparr>db := others (db w),
            trace := trace w @ [FindContract (r_contractId req), ShipBatteries]\<rparr>)"
  using assms
  by (simp add: admit_def loadContract_def writeLedger_def findOneContract_def logev_def Let_def)

lemma shipBatteries_alone:
  assumes "contracts l (contractId c) = Some c"
    and "\<not> isLocked c" and "js_add (batteriesShipped c) q \<le> threshold c"
  shows "shipBatteries l c q t =
     Some (c\<lparr>batteriesShipped := js_add (batteriesShipped c) q, lastUpdated := t\<rparr>,
           l\<lparr>contracts := (contracts l)(contractId c \<mapsto>
                c\<lparr>batteriesShipped := js_add (batteriesShipped c) q, lastUpdated := t\<rparr>)\<rparr>)"
  using assms by (simp add: shipBatteries_def Let_def)


lemma acquireLock_ok_iff: "ok (acquireLock r k px t rn) = (up r \<and> redis_get r k t = None)"
  by (simp add: acquireLock_def redis_set_nx_px_def split: option.splits)

lemma createShipment_refused:
  assumes "validationOk req"
    and "\<not> ok (acquireLock (redisClient w) (''shipment:'' @ r_contractId req) 10000 (now e) (rnd e))"
  shows "fst (createShipment others e req w) =
           Failure 423 ''Another shipment is being processed for this contract. Please try again.''
             ''CONCURRENT_SHIPMENT''"
    and "db (snd (createShipment others e req w)) = db w"
  using assms by (simp_all add: createShipment_def enter_def caught_def logev_def Let_def)

lemma createShipment_locked:
  assumes "validationOk req" and "up (redisClient w)"
    and "redis_get (redisClient w) (''shipment:'' @ r_contractId req) (now e) = None"
    and "contracts (db w) (r_contractId req) = Some c" and "isLocked c"
  shows "createShipment others e req w =
     (Failure 423 ''Contract is locked. No further shipments allowed.'' ''CONTRACT_LOCKED'',
      w\<lparr>redisClient := (redisClient w)\<lparr>entries := (entries (redisClient w))
                          (''shipment:'' @ r_contractId req := None)\<rparr>,
        trace := trace w @ [StartSession, StartTransaction,
                 AcquireLock (''shipment:'' @ r_contractId req) True,
                 FindContract (r_contractId req), ReleaseLock (''shipment:'' @ r_contractId req),
                 AbortTransaction, ConsoleError ''Create shipment error:'', EndSession]\<rparr>)"
  using assms
  by (simp add: createShipment_acquired caught_def Let_def admit_locked [where c = c] logev_def release_up
      errorResponse_def)

lemma createShipment_not_found:
  assumes "validationOk req" and "up (redisClient w)"
    and "redis_get (redisClient w) (''shipment:'' @ r_contractId req) (now e) = None"
    and "contracts (db w) (r_contractId req) = None"
  shows "createShipment others e req w =
     (Failure 404 ''Contract not found'' ''CONTRACT_NOT_FOUND'',
      w\<lparr>redisClient := (redisClient w)\<lparr>entries := (entries (redisClient w))
                          (''shipment:'' @ r_contractId req := None)\<rparr>,
        trace := trace w @ [StartSession, StartTransaction,
                 AcquireLock (''shipment:'' @ r_contractId req) True,
                 FindContract (r_contractId req), ReleaseLock (''shipment:'' @ r_contractId req),
                 AbortTransaction, ConsoleError ''Create shipment error:'', EndSession]\<rparr>)"
  using assms
  by (simp add: createShipment_acquired caught_def Let_def admit_not_found logev_def release_up
      errorResponse_def)

lemma createShipment_conflict:
  assumes "validationOk req" and "up (redisClient w)"
    and "redis_get (redisClient w) (''shipment:'' @ r_contractId req) (now e) = None"
    and "contracts (db w) (r_contractId req) = Some c"
    and "\<not> isLocked c" and "js_add (batteriesShipped c) (r_batteriesShipped req) \<le> threshold c"
    and "shipBatteries (others (db w)) c (r_batteriesShipped req) (now e) = None"
  shows "createShipment others e req w =
     (Failure 500 ''Failed to create shipment'' ''CREATE_ERROR'',
      w\<lparr>redisClient := (redisClient w)\<lparr>entries := (entries (redisClient w))
                          (''shipment:'' @ r_contractId req := None)\<rparr>,
        db := others (db w),
        trace := trace w @ [StartSession, StartTransaction,
                 AcquireLock (''shipment:'' @ r_contractId req) True,
                 FindContract (r_contractId req), ShipBatteries,
                 ReleaseLock (''shipment:'' @ r_contractId req),
                 AbortTransaction, ConsoleError ''Create shipment error:'', EndSession]\<rparr>)"
  using assms
  by (simp add: createShipment_acquired caught_def Let_def admit_conflict [where c = c] logev_def release_up
      errorResponse_def)

lemma createShipment_approved:
  assumes "validationOk req" and "up (redisClient w)"
    and "redis_get (redisClient w) (''shipment:'' @ r_contractId req) (now e) = None"
    and "contracts (db w) (r_contractId req) = Some c"
    and "\<not> isLocked c" and "js_add (batteriesShipped c) (r_batteriesShipped req) \<le> threshold c"
    and "shipBatteries (others (db w)) c (r_batteriesShipped req) (now e) = Some (d, tx)"
  shows "createShipment others e req w =
     (Created ''Shipment approved successfully'' (new_shipment e req c APPROVED None) None,
      w\<lparr>redisClient := (redisClient w)\<lparr>entries := (entries (redisClient w))
                          (''shipment:'' @ r_contractId req := None)\<rparr>,
        db := tx\<lparr>shipments := shipments tx @ [new_shipment e req c APPROVED None]\<rparr>,
        trace := trace w @ [StartSession, StartTransaction,
                 AcquireLock (''shipment:'' @ r_contractId req) True,
                 FindContract (r_contractId req), ShipBatteries, SaveShipment, CommitTransaction,
                 ReleaseLock (''shipment:'' @ r_contractId req), Populate,
                 Emit ''shipment:created'',
                 ReleaseLock (''shipment:'' @ r_contractId req), EndSession]\<rparr>)"
  using assms
  by (simp add: createShipment_acquired caught_def Let_def admit_approved [where c = c and d = d and tx = tx]
      logev_def release_up afterCommit_def notify_def rejected_def respond_def new_shipment_def toLowerCase_status_def)

lemma createShipment_blocked:
  assumes "validationOk req" and "up (redisClient w)"
    and "redis_get (redisClient w) (''shipment:'' @ r_contractId req) (now e) = None"
    and "contracts (db w) (r_contractId req) = Some c" and "contractId c = r_contractId req"
    and "\<not> isLocked c" and "threshold c < js_add (batteriesShipped c) (r_batteriesShipped req)"
  shows "createShipment others e req w =
     (Created ''Shipment blocked successfully''
        (new_shipment e req c BLOCKED
           (Some (block_reason (js_add (batteriesShipped c) (r_batteriesShipped req)) (threshold c))))
        (Some ''Shipment blocked due to threshold exceeded''),
      w\<lparr>redisClient := (redisClient w)\<lparr>entries := (entries (redisClient w))
                          (''shipment:'' @ r_contractId req := None)\<rparr>,
        db := (db w)\<lparr>contracts := (contracts (db w))
                 (r_contractId req \<mapsto>
                    c\<lparr>isLocked := True, lastUpdated := now e,
                      notificationsSent := notificationsSent c @
                        [\<lparr>email = user_email req,
                          message = notification_message (r_contractId req),
                          ntype = ''THRESHOLD_EXCEEDED'', timestamp = now e\<rparr>]\<rparr>),
               shipments := shipments (db w) @
                 [new_shipment e req c BLOCKED
                    (Some (block_reason (js_add (batteriesShipped c) (r_batteriesShipped req))
                             (threshold c)))]\<rparr>,
        trace := trace w @ [StartSession, StartTransaction,
                 AcquireLock (''shipment:'' @ r_contractId req) True,
                 FindContract (r_contractId req), SaveContract, SaveShipment, CommitTransaction,
                 ReleaseLock (''shipment:'' @ r_contractId req), Populate, AddNotification,
                 SendEmail] @
                 (if emailOk e then []
                  else [ConsoleError ''Email sending failed:'',
                        ConsoleError ''Email notification failed:'']) @
                 [Emit ''shipment:created'', Emit ''contract:threshold_exceeded'',
                  ReleaseLock (''shipment:'' @ r_contractId req), EndSession]\<rparr>)"
proof -
  obtain r l tr where w: "w = \<lparr>redisClient = r, db = l, trace = tr\<rparr>"
    by (cases w) auto
  obtain cs ss where l: "l = \<lparr>contracts = cs, shipments = ss\<rparr>"
    by (cases l) auto
  obtain i ci dc bs th lk lu ns where c:
    "c = \<lparr>oid = i, contractId = ci, deviceCount = dc, batteriesShipped = bs, threshold = th,
          isLocked = lk, lastUpdated = lu, notificationsSent = ns\<rparr>"
    by (cases c) auto
  from assms show ?thesis
    by (simp add: createShipment_acquired caught_def Let_def admit_blocked [where c = c]
        logev_def release_up afterCommit_def notify_def rejected_def respond_def new_shipment_def toLowerCase_status_def
        addNotification_def save_existing_def)
      (simp add: w l c)
qed



section \<open>The bound under every schedule\<close>




















lemma exec_alone:
  assumes i: "i < length hs" and start: "h_at (hs ! i) = AtStart"
    and quiet: "\<not> h_writeConflict (hs ! i)"
  shows "exec [i, i, i, i, i, i] (w, hs) =
     (snd (createShipment (\<lambda>l. l) (h_env (hs ! i)) (h_req (hs ! i)) w),
      hs[i := (hs ! i)\<lparr>h_at := Answered (fst (createShipment (\<lambda>l. l) (h_env (hs ! i))
                                               (h_req (hs ! i)) w))\<rparr>])"
proof -
  let ?e = "h_env (hs ! i)" and ?req = "h_req (hs ! i)"
  let ?k = "''shipment:'' @ r_contractId ?req"
  note defs = step_def advance_def createShipment_def admit_def afterCommit_def Let_def
  show ?thesis
  proof (cases "enter ?e ?req w")
    case (Inl r)
    obtain res w1 where r: "r = (res, w1)" by (cases r)
    from i start Inl r show ?thesis by (simp add: defs)
  next
    case entered: (Inr w1)
    show ?thesis
    proof (cases "loadContract ?req w1")
      case (Inl r)
      obtain msg w2 where r: "r = (msg, w2)" by (cases r)
      from i start entered Inl r show ?thesis by (simp add: defs split: prod.splits)
    next
      case loaded: (Inr r)
      obtain c w2 where r: "r = (c, w2)" by (cases r)
      show ?thesis
      proof (cases "writeLedger (\<lambda>l. l) ?e ?req c w2")
        case (Inl r')
        obtain msg w3 where r': "r' = (msg, w3)" by (cases r')
        from i start quiet entered loaded r Inl r' show ?thesis
          by (simp add: defs split: prod.splits)
      next
        case written: (Inr r')
        obtain a w3 where r': "r' = (a, w3)" by (cases r')
        show ?thesis
        proof (cases "notify ?e ?req a (release ?k w3)")
          case (Inl w4)
          from i start quiet entered loaded r written r' Inl show ?thesis
            by (simp add: defs split: prod.splits)
        next
          case (Inr w4)
          from i start quiet entered loaded r written r' Inr show ?thesis
            by (simp add: defs split: prod.splits)
        qed
      qed
    qed
  qed
qed


section \<open>The example states, evaluated\<close>

lemma js_add_examples:
  shows "js_add 55 5 = 60" and "js_add 55 10 = 65" and "js_add 60 5 = 65"
  by (simp_all add: js_add_exact)

lemmas example_defs = c55_def redis0_def world0_def user_req_def env0_def env1_def
  world_held_def world_locked_def js_add_examples

lemma redis_A_eq:
  "redis_A = \<lparr>up = True, entries = [''shipment:PBR-2'' \<mapsto> (''0-0.1'', 10000)]\<rparr>"
  by (simp add: redis_A_def redis0_def lock_defs print_simps)

lemma redis_B_eq:
  "redis_B = \<lparr>up = True, entries = [''shipment:PBR-2'' \<mapsto> (''10001-0.2'', 20001)]\<rparr>"
  by (simp add: redis_B_def redis_A_eq lock_defs print_simps)

lemma world_held_eq:
  "world_held =
     \<lparr>redisClient = \<lparr>up = True, entries = [''shipment:PBR-2'' \<mapsto> (''500-0.1'', 10500)]\<rparr>,
      db = \<lparr>contracts = [''PBR-2'' \<mapsto> c55], shipments = []\<rparr>,
      trace = []\<rparr>"
  by (simp add: world_held_def world0_def redis0_def lock_defs print_simps)

lemma manual_lock_world0:
  "manual_lock (db world0) =
     \<lparr>contracts = [''PBR-2'' \<mapsto>
        c55\<lparr>isLocked := True,
            notificationsSent :=
              [\<lparr>email = ''admin@example.com'', message = ''Contract manually locked by admin'',
                ntype = ''CONTRACT_LOCKED'', timestamp = 1500\<rparr>],
            lastUpdated := 1500\<rparr>],
      shipments = []\<rparr>"
  by (simp add: manual_lock_def toggleLock_def findOneContract_def save_existing_def example_defs)

lemma block_reason_65_60: "block_reason 65 60 = ''Shipment would exceed threshold (65/60)''"
  by (simp add: block_reason_def print_simps)

lemma sublist_65_60: "sublist ''65/60'' ''Shipment would exceed threshold (65/60)''"
proof -
  have "''Shipment would exceed threshold (65/60)'' =
        ''Shipment would exceed threshold ('' @ ''65/60'' @ '')''"
    by simp
  then show ?thesis unfolding sublist_def by blast
qed

lemma approved_run_world0:
  "createShipment (\<lambda>l. l) env1 (user_req 5) world0 =
     (Created ''Shipment approved successfully'' (new_shipment env1 (user_req 5) c55 APPROVED None)
        None,
      \<lparr>redisClient = redis0,
       db = \<lparr>contracts = [''PBR-2'' \<mapsto> c55\<lparr>batteriesShipped := 60, lastUpdated := 2000\<rparr>],
             shipments = [new_shipment env1 (user_req 5) c55 APPROVED None]\<rparr>,
       trace = [StartSession, StartTransaction, AcquireLock ''shipment:PBR-2'' True,
                FindContract ''PBR-2'', ShipBatteries, SaveShipment, CommitTransaction,
                ReleaseLock ''shipment:PBR-2'', Populate, Emit ''shipment:created'',
                ReleaseLock ''shipment:PBR-2'', EndSession]\<rparr>)"
proof -
  have valid: "validationOk (user_req 5)" by (simp add: example_defs validationOk_def)
  have up: "up (redisClient world0)" by (simp add: example_defs)
  have free: "redis_get (redisClient world0) (''shipment:'' @ r_contractId (user_req 5)) (now env1)
              = None"
    by (simp add: example_defs redis_get_def)
  have c: "contracts (db world0) (r_contractId (user_req 5)) = Some c55"
    by (simp add: example_defs)
  have unlocked: "\<not> isLocked c55"
    and fits: "js_add (batteriesShipped c55) (r_batteriesShipped (user_req 5)) \<le> threshold c55"
    by (simp_all add: example_defs)
  have stored: "contracts (db world0) (contractId c55) = Some c55" by (simp add: example_defs)
  have ship: "shipBatteries ((\<lambda>l. l) (db world0)) c55 (r_batteriesShipped (user_req 5)) (now env1) =
     Some (c55\<lparr>batteriesShipped := js_add (batteriesShipped c55) (r_batteriesShipped (user_req 5)),
                lastUpdated := now env1\<rparr>,
           (db world0)\<lparr>contracts := (contracts (db world0))(contractId c55 \<mapsto>
                c55\<lparr>batteriesShipped := js_add (batteriesShipped c55) (r_batteriesShipped (user_req 5)),
                    lastUpdated := now env1\<rparr>)\<rparr>)"
    using shipBatteries_alone [OF stored unlocked fits, of "now env1"] by simp
  show ?thesis
    unfolding createShipment_approved [where others = "\<lambda>l. l", OF valid up free c unlocked fits ship]
    by (simp add: example_defs)
qed


lemma blocked_run_world0:
  "createShipment (\<lambda>l. l) env0 (user_req 10) world0 =
     (Created ''Shipment blocked successfully''
        (new_shipment env0 (user_req 10) c55 BLOCKED (Some (block_reason 65 60)))
        (Some ''Shipment blocked due to threshold exceeded''),
      \<lparr>redisClient = redis0,
       db = \<lparr>contracts = [''PBR-2'' \<mapsto>
                c55\<lparr>isLocked := True, lastUpdated := 1000,
                    notificationsSent :=
                      [\<lparr>email = ''alice@example.com'', message = notification_message ''PBR-2'',
                        ntype = ''THRESHOLD_EXCEEDED'', timestamp = 1000\<rparr>]\<rparr>],
             shipments = [new_shipment env0 (user_req 10) c55 BLOCKED (Some (block_reason 65 60))]\<rparr>,
       trace = [StartSession, StartTransaction, AcquireLock ''shipment:PBR-2'' True,
                FindContract ''PBR-2'', SaveContract, SaveShipment, CommitTransaction,
                ReleaseLock ''shipment:PBR-2'', Populate, AddNotification, SendEmail,
                ConsoleError ''Email sending failed:'', ConsoleError ''Email notification failed:'',
                Emit ''shipment:created'', Emit ''contract:threshold_exceeded'',
                ReleaseLock ''shipment:PBR-2'', EndSession]\<rparr>)"
proof -
  have valid: "validationOk (user_req 10)" by (simp add: example_defs validationOk_def)
  have up: "up (redisClient world0)" by (simp add: example_defs)
  have free: "redis_get (redisClient world0) (''shipment:'' @ r_contractId (user_req 10)) (now env0)
              = None"
    by (simp add: example_defs redis_get_def)
  have c: "contracts (db world0) (r_contractId (user_req 10)) = Some c55"
    by (simp add: example_defs)
  have key: "contractId c55 = r_contractId (user_req 10)" by (simp add: example_defs)
  have unlocked: "\<not> isLocked c55"
    and exceeds: "threshold c55 < js_add (batteriesShipped c55) (r_batteriesShipped (user_req 10))"
    by (simp_all add: example_defs)
  show ?thesis
    unfolding createShipment_blocked [where others = "\<lambda>l. l", OF valid up free c key unlocked exceeds]
    by (simp add: example_defs)
qed

lemmas handler_defs = step_def advance_def enter_def loadContract_def writeLedger_def
  storeShipment_def notify_def respond_def caught_def rejected_def release_def logev_def
  validationOk_def findOneContract_def shipBatteries_def save_existing_def addNotification_def
  errorResponse_def new_shipment_def toLowerCase_status_def outcome_def Let_def



lemma overlapping_filter_refuses:
  shows "map h_at (snd (exec (take 6 overlapping) (world0, handlers_AB_quiet))) =
     [HasThrown ''ATOMIC_UPDATE_FAILED'',
      HasCommitted \<lparr>a_shipment = new_shipment env_B (user_req 5) c55 APPROVED None,
                     a_contract = c55, a_newTotal = 60\<rparr>]"
    and "map h_outcome (snd (exec overlapping (world0, handlers_AB_quiet))) =
     [None, Some APPROVED]"
    and "contracts (db (fst (exec overlapping (world0, handlers_AB_quiet)))) ''PBR-2'' =
     Some (c55\<lparr>batteriesShipped := 60, lastUpdated := 10001\<rparr>)"
  by (simp_all add: overlapping_def handlers_AB_quiet_def handlers_AB_def env_A_def env_B_def
      handler_defs example_defs lock_defs print_simps h_outcome_def)


lemma relay_run:
  shows "map h_at (snd (exec (take 7 relay) (world0, handlers_ACD))) =
     [HasNotified \<lparr>a_shipment = new_shipment env_A (user_req 1) c55 APPROVED None,
                   a_contract = c55, a_newTotal = 56\<rparr>,
      HasContract (c55\<lparr>batteriesShipped := 56\<rparr>),
      AtStart]"
    and "redis_get (redisClient (fst (exec (take 7 relay) (world0, handlers_ACD))))
           ''shipment:PBR-2'' 100 = Some ''100-0.3''"
    and "redis_get (redisClient (fst (exec (take 8 relay) (world0, handlers_ACD))))
           ''shipment:PBR-2'' 100 = None"
    and "map h_at (snd (exec relay (world0, handlers_ACD))) =
     [Answered (Created ''Shipment approved successfully''
                  (new_shipment env_A (user_req 1) c55 APPROVED None) None),
      HasContract (c55\<lparr>batteriesShipped := 56\<rparr>),
      HasLock]"
    and "redis_get (redisClient (fst (exec relay (world0, handlers_ACD))))
           ''shipment:PBR-2'' 200 = Some ''200-0.4''"
  by (simp_all add: relay_def handlers_ACD_def env_A_def env_C_def env_D_def handler_defs
      example_defs lock_defs print_simps js_add_exact)

lemma releaseLock_unconditional:
  "ok (releaseLock r k) = up r \<and>
   up (client (releaseLock r k)) = up r \<and>
   entries (client (releaseLock r k)) = (if up r then (entries r)(k := None) else entries r) \<and>
   releaseLock (client (releaseLock r k)) k = releaseLock r k"
  by (simp add: releaseLock_def redis_del_def)


section \<open>Derived status\<close>

lemma thresholdPercentage_pos:
  "threshold c > 0 \<Longrightarrow>
   thresholdPercentage c = percent (of_int (batteriesShipped c) / of_int (threshold c))"
  by (simp add: thresholdPercentage_def percent_def js_mul_def js_div_def)

lemma percent_85_of_100: "percent (17 / 20) = 85"
  unfolding percent_def by code_simp

lemma example_status: "status example_contract = WARNING"
  by (simp add: status_def thresholdPercentage_pos example_contract_def percent_85_of_100)

text \<open>
  C9. The status is a function of the stored fields, not a field. For a contract whose
  threshold is at least 1 (the data model's positive threshold) and below
  1637672591771094, it is LOCKED when \<open>isLocked\<close> holds, otherwise EXCEEDED when
  \<open>batteriesShipped / threshold \<ge> 1\<close>, otherwise WARNING when the quotient is at least
  \<open>0.8\<close>, otherwise ACTIVE. The bound is the first threshold at which the rounding of the
  quotient and of its product with 100 shows: with 1310138073416875 of 1637672591771094
  shipped the quotient is below \<open>0.8\<close>, the percentage the virtual computes is 80, and
  the status is WARNING.
\<close>

theorem status_by_ratio:
  assumes "1 \<le> threshold c" and "threshold c < 1637672591771094"
  shows "status c =
     (if isLocked c then LOCKED
      else if (of_int (batteriesShipped c) / of_int (threshold c) :: rat) \<ge> 1 then EXCEEDED
      else if (of_int (batteriesShipped c) / of_int (threshold c) :: rat) \<ge> 8 / 10 then WARNING
      else ACTIVE)"
proof -
  from assms have pos: "threshold c > 0" and le: "threshold c \<le> 2 ^ 53" by simp_all
  have e: "(8 / 10 :: rat) = 4 / 5" by simp
  show ?thesis
    unfolding status_def thresholdPercentage_pos [OF pos] e
      percent_ge_100_iff [OF assms(1) le] percent_ge_80_iff [OF assms] ..
qed

theorem status_by_ratio_witness:
  "1 \<le> threshold example_contract \<and> threshold example_contract < 1637672591771094 \<and>
   status example_contract = WARNING"
proof -
  have h1: "1 \<le> threshold example_contract"
    and h2: "threshold example_contract < 1637672591771094"
    by (simp_all add: example_contract_def)
  show ?thesis using h1 h2 status_by_ratio [OF h1 h2] by (simp add: example_contract_def)
qed

theorem status_rounded_counterexample:
  "1 \<le> threshold c_rounded \<and> \<not> isLocked c_rounded \<and>
   (of_int (batteriesShipped c_rounded) / of_int (threshold c_rounded) :: rat) < 8 / 10 \<and>
   thresholdPercentage c_rounded = 80 \<and>
   status c_rounded = WARNING"
  by (simp add: status_def thresholdPercentage_def c_rounded_def js_mul_def js_div_def
      percent_first_rounded [unfolded percent_def])

text \<open>
  C10. For a contract whose threshold is at least 1, the aggregation stage succeeds and
  the status it adds is the status the model's virtual computes from the same fields: the
  two compute the same quotient and the same product, with the same rounding.
\<close>

theorem pipeline_status_eq_virtual:
  assumes "threshold d \<ge> 1"
  shows "pipeline_status d = Some (status d)"
proof -
  from assms have pos: "threshold d > 0" and nz: "threshold d \<noteq> 0" by simp_all
  show ?thesis
    using nz pos
    by (simp add: pipeline_status_def addFields_def mongo_divide_def switch_status_def
        status_def thresholdPercentage_def)
qed

theorem pipeline_status_eq_virtual_witness:
  "threshold example_contract \<ge> 1 \<and> pipeline_status example_contract = Some WARNING"
proof -
  have h: "threshold example_contract \<ge> 1" by (simp add: example_contract_def)
  show ?thesis using h pipeline_status_eq_virtual [OF h] example_status by simp
qed


section \<open>Admission\<close>




text \<open>
  C2. The scenario 55 of 60 with a request for 10: the request is valid and takes the lock
  (the server is reachable and the key is free). The outcome is BLOCKED, the block reason
  is the message with \<open>65/60\<close> in it, the stored contract is locked and its
  \<open>batteriesShipped\<close> is still 55.
\<close>

theorem blocked_at_65_of_60:
  assumes "contracts (db w) (r_contractId req) = Some c" and "contractId c = r_contractId req"
    and "threshold c = 60" and "batteriesShipped c = 55" and "\<not> isLocked c"
    and "r_contractId req \<noteq> []" and "r_batteriesShipped req = 10"
    and "up (redisClient w)"
    and "redis_get (redisClient w) (''shipment:'' @ r_contractId req) (now e) = None"
  shows "fst (createShipment others e req w) =
           Created ''Shipment blocked successfully''
             (new_shipment e req c BLOCKED (Some ''Shipment would exceed threshold (65/60)''))
             (Some ''Shipment blocked due to threshold exceeded'') \<and>
         outcome (fst (createShipment others e req w)) = Some BLOCKED \<and>
         (\<exists>reason. response_blockReason (fst (createShipment others e req w)) = Some reason \<and>
                   sublist ''65/60'' reason) \<and>
         map_option isLocked (contracts (db (snd (createShipment others e req w))) (r_contractId req))
           = Some True \<and>
         map_option batteriesShipped
           (contracts (db (snd (createShipment others e req w))) (r_contractId req)) = Some 55"
proof -
  from assms have valid: "validationOk req" by (simp add: validationOk_def)
  from assms have exceeds: "threshold c < js_add (batteriesShipped c) (r_batteriesShipped req)"
    by (simp add: js_add_exact)
  note run = createShipment_blocked [OF valid assms(8) assms(9) assms(1) assms(2) assms(5) exceeds,
      of others]
  from assms have reason:
    "block_reason (js_add (batteriesShipped c) (r_batteriesShipped req)) (threshold c) =
     ''Shipment would exceed threshold (65/60)''"
    by (simp add: block_reason_65_60 js_add_examples)
  show ?thesis
    unfolding run reason using assms(4) sublist_65_60
    by (simp add: outcome_def response_blockReason_def new_shipment_def)
qed

theorem blocked_at_65_of_60_witness:
  "contracts (db world0) (r_contractId (user_req 10)) = Some c55 \<and>
   threshold c55 = 60 \<and> batteriesShipped c55 = 55 \<and> \<not> isLocked c55 \<and>
   r_batteriesShipped (user_req 10) = 10 \<and>
   redis_get (redisClient world0) (''shipment:'' @ r_contractId (user_req 10)) (now env0) = None \<and>
   outcome (fst (createShipment (\<lambda>l. l) env0 (user_req 10) world0)) = Some BLOCKED \<and>
   response_blockReason (fst (createShipment (\<lambda>l. l) env0 (user_req 10) world0)) =
     Some ''Shipment would exceed threshold (65/60)'' \<and>
   map_option isLocked (contracts (db (snd (createShipment (\<lambda>l. l) env0 (user_req 10) world0))) ''PBR-2'')
     = Some True \<and>
   map_option batteriesShipped
     (contracts (db (snd (createShipment (\<lambda>l. l) env0 (user_req 10) world0))) ''PBR-2'') = Some 55"
proof -
  have h1: "contracts (db world0) (r_contractId (user_req 10)) = Some c55"
    by (simp add: example_defs)
  have h2: "contractId c55 = r_contractId (user_req 10)" by (simp add: example_defs)
  have h3: "threshold c55 = 60" and h4: "batteriesShipped c55 = 55" and h5: "\<not> isLocked c55"
    by (simp_all add: example_defs)
  have h6: "r_contractId (user_req 10) \<noteq> []" and h7: "r_batteriesShipped (user_req 10) = 10"
    by (simp_all add: example_defs)
  have h8: "up (redisClient world0)" by (simp add: example_defs)
  have h9: "redis_get (redisClient world0) (''shipment:'' @ r_contractId (user_req 10)) (now env0)
            = None"
    by (simp add: example_defs redis_get_def)
  have k: "r_contractId (user_req 10) = ''PBR-2''" by (simp add: example_defs)
  from blocked_at_65_of_60 [OF h1 h2 h3 h4 h5 h6 h7 h8 h9, of "\<lambda>l. l"] h1 h3 h4 h5 h7 h9
  show ?thesis by (simp add: k outcome_def response_blockReason_def new_shipment_def)
qed

text \<open>
  C3. A locked contract: whatever the request, the handler leaves the ledger as it was (no
  shipment document, the same \<open>batteriesShipped\<close>); and a request that reaches the contract
  (it is valid and takes the lock) is answered with status 423 and the code
  \<open>CONTRACT_LOCKED\<close>.
\<close>

theorem locked_contract_rejects:
  assumes "contracts (db w) (r_contractId req) = Some c" and "isLocked c"
  shows "db (snd (createShipment others e req w)) = db w \<and>
         shipments (db (snd (createShipment others e req w))) = shipments (db w) \<and>
         map_option batteriesShipped
           (contracts (db (snd (createShipment others e req w))) (r_contractId req))
           = Some (batteriesShipped c) \<and>
         (validationOk req \<and> up (redisClient w) \<and>
          redis_get (redisClient w) (''shipment:'' @ r_contractId req) (now e) = None \<longrightarrow>
          fst (createShipment others e req w) =
            Failure 423 ''Contract is locked. No further shipments allowed.'' ''CONTRACT_LOCKED'' \<and>
          response_code (fst (createShipment others e req w)) = Some ''CONTRACT_LOCKED'')"
proof -
  have same: "db (snd (createShipment others e req w)) = db w"
  proof (cases "validationOk req")
    case False
    then show ?thesis by (simp add: createShipment_invalid logev_def)
  next
    case valid: True
    show ?thesis
    proof (cases "ok (acquireLock (redisClient w) (''shipment:'' @ r_contractId req) 10000
                        (now e) (rnd e))")
      case False
      from createShipment_refused(2) [OF valid False] show ?thesis .
    next
      case True
      then have "up (redisClient w)"
        and "redis_get (redisClient w) (''shipment:'' @ r_contractId req) (now e) = None"
        by (simp_all add: acquireLock_ok_iff)
      from createShipment_locked [OF valid this assms] show ?thesis by simp
    qed
  qed
  have code: "fst (createShipment others e req w) =
            Failure 423 ''Contract is locked. No further shipments allowed.'' ''CONTRACT_LOCKED''"
    if "validationOk req" and "up (redisClient w)"
      and "redis_get (redisClient w) (''shipment:'' @ r_contractId req) (now e) = None"
    using createShipment_locked [OF that assms] by simp
  from same code assms(1) show ?thesis
    by (simp add: response_code_def)
qed

theorem locked_contract_rejects_witness:
  "contracts (db world_locked) (r_contractId (user_req 5)) = Some (c55\<lparr>isLocked := True\<rparr>) \<and>
   isLocked (c55\<lparr>isLocked := True\<rparr>) \<and> validationOk (user_req 5) \<and>
   up (redisClient world_locked) \<and>
   redis_get (redisClient world_locked) (''shipment:'' @ r_contractId (user_req 5)) (now env0) = None \<and>
   response_code (fst (createShipment (\<lambda>l. l) env0 (user_req 5) world_locked)) = Some ''CONTRACT_LOCKED'' \<and>
   db (snd (createShipment (\<lambda>l. l) env0 (user_req 5) world_locked)) = db world_locked"
proof -
  have h1: "contracts (db world_locked) (r_contractId (user_req 5)) = Some (c55\<lparr>isLocked := True\<rparr>)"
    by (simp add: example_defs)
  have h2: "isLocked (c55\<lparr>isLocked := True\<rparr>)" by simp
  have h3: "validationOk (user_req 5)" by (simp add: example_defs validationOk_def)
  have h4: "up (redisClient world_locked)" by (simp add: example_defs)
  have h5: "redis_get (redisClient world_locked) (''shipment:'' @ r_contractId (user_req 5))
              (now env0) = None"
    by (simp add: example_defs redis_get_def)
  from locked_contract_rejects [OF h1 h2, of "\<lambda>l. l" env0] h1 h2 h3 h4 h5
  show ?thesis by (simp add: response_code_def)
qed

text \<open>
  C4. When the lock of the contract is held, a valid request is answered at once with
  status 423 and the code \<open>CONCURRENT_SHIPMENT\<close> (the handler has no code
  \<open>CONCURRENT_OPERATION\<close>); the transaction it had opened is aborted empty, and the ledger is
  neither read nor written.
\<close>

theorem lock_held_concurrent_shipment:
  assumes "validationOk req"
    and "redis_get (redisClient w) (''shipment:'' @ r_contractId req) (now e) = Some v"
  shows "fst (createShipment others e req w) =
           Failure 423 ''Another shipment is being processed for this contract. Please try again.''
             ''CONCURRENT_SHIPMENT'' \<and>
         response_code (fst (createShipment others e req w)) = Some ''CONCURRENT_SHIPMENT'' \<and>
         db (snd (createShipment others e req w)) = db w \<and>
         redisClient (snd (createShipment others e req w)) = redisClient w \<and>
         trace (snd (createShipment others e req w)) =
           trace w @ [StartSession, StartTransaction,
                      AcquireLock (''shipment:'' @ r_contractId req) False] @
           (if up (redisClient w) then [] else [ConsoleError ''Error acquiring lock:'']) @
           [AbortTransaction, EndSession]"
  unfolding createShipment_held [OF assms]
  by (simp add: response_code_def logev_def)

theorem lock_held_concurrent_shipment_witness:
  "validationOk (user_req 5) \<and>
   redis_get (redisClient world_held) (''shipment:'' @ r_contractId (user_req 5)) (now env0)
     = Some ''500-0.1'' \<and>
   response_code (fst (createShipment (\<lambda>l. l) env0 (user_req 5) world_held))
     = Some ''CONCURRENT_SHIPMENT'' \<and>
   db (snd (createShipment (\<lambda>l. l) env0 (user_req 5) world_held)) = db world_held \<and>
   trace (snd (createShipment (\<lambda>l. l) env0 (user_req 5) world_held)) =
     [StartSession, StartTransaction, AcquireLock ''shipment:PBR-2'' False,
      AbortTransaction, EndSession]"
proof -
  have valid: "validationOk (user_req 5)" by (simp add: example_defs validationOk_def)
  have held: "redis_get (redisClient world_held) (''shipment:'' @ r_contractId (user_req 5))
                (now env0) = Some ''500-0.1''"
    by (simp add: world_held_eq redis_get_def example_defs)
  have up: "up (redisClient world_held)" and tr: "trace world_held = []"
    by (simp_all add: world_held_eq)
  from lock_held_concurrent_shipment [OF valid held, of "\<lambda>l. l"] valid held up tr
  show ?thesis by (simp add: response_code_def user_req_def)
qed

theorem lock_held_counterexample:
  "validationOk (user_req 5) \<and>
   redis_get (redisClient world_held) ''shipment:PBR-2'' (now env0) = Some ''500-0.1'' \<and>
   response_code (fst (createShipment (\<lambda>l. l) env0 (user_req 5) world_held))
     = Some ''CONCURRENT_SHIPMENT'' \<and>
   response_code (fst (createShipment (\<lambda>l. l) env0 (user_req 5) world_held))
     \<noteq> Some ''CONCURRENT_OPERATION''"
proof -
  have valid: "validationOk (user_req 5)" by (simp add: example_defs validationOk_def)
  have held: "redis_get (redisClient world_held) (''shipment:'' @ r_contractId (user_req 5))
                (now env0) = Some ''500-0.1''"
    by (simp add: world_held_eq redis_get_def example_defs)
  from createShipment_held [OF valid held, of "\<lambda>l. l"] valid held show ?thesis
    by (simp add: response_code_def user_req_def)
qed

text \<open>
  C5. When the conditional update matches no document, the handler throws
  \<open>ATOMIC_UPDATE_FAILED\<close>, releases the lock, aborts the transaction and answers with status
  500 and the generic code \<open>CREATE_ERROR\<close> (it has no code \<open>ATOMIC_UPDATE_CONFLICT\<close>); the
  ledger is what the other clients left, this request writes nothing. The request reaches
  the conditional update when the handler's own test lets it pass: the sum of the two
  Numbers, which is the sum of the integers up to \<open>2 ^ 53\<close> (\<open>js_add_exact\<close>), does
  not exceed the threshold.
\<close>

theorem conflict_create_error:
  assumes "validationOk req" and "up (redisClient w)"
    and "redis_get (redisClient w) (''shipment:'' @ r_contractId req) (now e) = None"
    and "contracts (db w) (r_contractId req) = Some c"
    and "\<not> isLocked c" and "js_add (batteriesShipped c) (r_batteriesShipped req) \<le> threshold c"
    and "shipBatteries (others (db w)) c (r_batteriesShipped req) (now e) = None"
  shows "fst (createShipment others e req w) =
           Failure 500 ''Failed to create shipment'' ''CREATE_ERROR'' \<and>
         response_code (fst (createShipment others e req w)) = Some ''CREATE_ERROR'' \<and>
         db (snd (createShipment others e req w)) = others (db w) \<and>
         redis_get (redisClient (snd (createShipment others e req w)))
           (''shipment:'' @ r_contractId req) (now e) = None \<and>
         trace (snd (createShipment others e req w)) =
           trace w @ [StartSession, StartTransaction,
                      AcquireLock (''shipment:'' @ r_contractId req) True,
                      FindContract (r_contractId req), ShipBatteries,
                      ReleaseLock (''shipment:'' @ r_contractId req),
                      AbortTransaction, ConsoleError ''Create shipment error:'', EndSession]"
  unfolding createShipment_conflict [where others = others, OF assms]
  by (simp add: response_code_def redis_get_def)

theorem conflict_create_error_witness:
  "validationOk (user_req 5) \<and> up (redisClient world0) \<and>
   contracts (db world0) (r_contractId (user_req 5)) = Some c55 \<and>
   \<not> isLocked c55 \<and> js_add (batteriesShipped c55) (r_batteriesShipped (user_req 5)) \<le> threshold c55 \<and>
   shipBatteries (manual_lock (db world0)) c55 (r_batteriesShipped (user_req 5)) (now env0) = None \<and>
   fst (createShipment manual_lock env0 (user_req 5) world0) =
     Failure 500 ''Failed to create shipment'' ''CREATE_ERROR'' \<and>
   db (snd (createShipment manual_lock env0 (user_req 5) world0)) = manual_lock (db world0) \<and>
   shipments (db (snd (createShipment manual_lock env0 (user_req 5) world0))) = []"
proof -
  have valid: "validationOk (user_req 5)" by (simp add: example_defs validationOk_def)
  have up: "up (redisClient world0)" by (simp add: example_defs)
  have free: "redis_get (redisClient world0) (''shipment:'' @ r_contractId (user_req 5)) (now env0)
              = None"
    by (simp add: example_defs redis_get_def)
  have c: "contracts (db world0) (r_contractId (user_req 5)) = Some c55"
    by (simp add: example_defs)
  have unlocked: "\<not> isLocked c55"
    and fits: "js_add (batteriesShipped c55) (r_batteriesShipped (user_req 5)) \<le> threshold c55"
    by (simp_all add: example_defs)
  have miss: "shipBatteries (manual_lock (db world0)) c55 (r_batteriesShipped (user_req 5))
                (now env0) = None"
    unfolding manual_lock_world0 by (simp add: shipBatteries_def example_defs)
  have none: "shipments (manual_lock (db world0)) = []" by (simp add: manual_lock_world0)
  from conflict_create_error [where others = manual_lock, OF valid up free c unlocked fits miss]
    valid up c unlocked fits miss none
  show ?thesis by simp
qed

theorem conflict_counterexample:
  "shipBatteries (manual_lock (db world0)) c55 5 1000 = None \<and>
   response_code (fst (createShipment manual_lock env0 (user_req 5) world0)) = Some ''CREATE_ERROR'' \<and>
   response_code (fst (createShipment manual_lock env0 (user_req 5) world0))
     \<noteq> Some ''ATOMIC_UPDATE_CONFLICT''"
proof -
  have valid: "validationOk (user_req 5)" by (simp add: example_defs validationOk_def)
  have up: "up (redisClient world0)" by (simp add: example_defs)
  have free: "redis_get (redisClient world0) (''shipment:'' @ r_contractId (user_req 5)) (now env0)
              = None"
    by (simp add: example_defs redis_get_def)
  have c: "contracts (db world0) (r_contractId (user_req 5)) = Some c55"
    by (simp add: example_defs)
  have unlocked: "\<not> isLocked c55"
    and fits: "js_add (batteriesShipped c55) (r_batteriesShipped (user_req 5)) \<le> threshold c55"
    by (simp_all add: example_defs)
  have miss: "shipBatteries (manual_lock (db world0)) c55 (r_batteriesShipped (user_req 5))
                (now env0) = None"
    unfolding manual_lock_world0 by (simp add: shipBatteries_def example_defs)
  from createShipment_conflict [where others = manual_lock, OF valid up free c unlocked fits miss] miss
  show ?thesis by (simp add: response_code_def user_req_def env0_def)
qed

text \<open>
  C6. The order of the handler's first calls for a valid request: \<open>startTransaction\<close> on the
  session comes before \<open>acquireLock\<close>. The run below is the request for 5 batteries on the
  contract at 55 of 60.
\<close>

theorem transaction_started_before_lock:
  "trace (snd (createShipment (\<lambda>l. l) env1 (user_req 5) world0)) =
     [StartSession, StartTransaction, AcquireLock ''shipment:PBR-2'' True,
      FindContract ''PBR-2'', ShipBatteries, SaveShipment, CommitTransaction,
      ReleaseLock ''shipment:PBR-2'', Populate, Emit ''shipment:created'',
      ReleaseLock ''shipment:PBR-2'', EndSession]"
  by (simp add: approved_run_world0)

text \<open>
  C7. A BLOCKED outcome. The transaction commits the lock of the contract and the shipment
  document, without a notification record; the record is appended afterwards, by a save of
  its own that follows the commit and the release of the lock. A failing mail transport is
  logged twice and changes neither the response nor the ledger. The outcome is BLOCKED
  when the handler's test says so: the sum of the two Numbers, which is the sum of the
  integers up to \<open>2 ^ 53\<close> (\<open>js_add_exact\<close>), exceeds the threshold.
\<close>

theorem blocked_notification_after_commit:
  assumes valid: "validationOk req" and up: "up (redisClient w)"
    and free: "redis_get (redisClient w) (''shipment:'' @ r_contractId req) (now e) = None"
    and c: "contracts (db w) (r_contractId req) = Some c"
    and key: "contractId c = r_contractId req"
    and unlocked: "\<not> isLocked c"
    and exceeds: "threshold c < js_add (batteriesShipped c) (r_batteriesShipped req)"
  shows "(\<forall>w' k. db w' = db w \<longrightarrow>
            map_sum fst (\<lambda>p. contracts (db (snd p)) (r_contractId req)) (admit others e req k w')
              = Inr (Some (c\<lparr>isLocked := True, lastUpdated := now e\<rparr>))) \<and>
         contracts (db (snd (createShipment others e req w))) (r_contractId req) =
           Some (c\<lparr>isLocked := True, lastUpdated := now e,
                   notificationsSent := notificationsSent c @
                     [\<lparr>email = user_email req, message = notification_message (r_contractId req),
                       ntype = ''THRESHOLD_EXCEEDED'', timestamp = now e\<rparr>]\<rparr>) \<and>
         trace (snd (createShipment others e req w)) =
           trace w @ [StartSession, StartTransaction,
                      AcquireLock (''shipment:'' @ r_contractId req) True,
                      FindContract (r_contractId req), SaveContract, SaveShipment,
                      CommitTransaction, ReleaseLock (''shipment:'' @ r_contractId req),
                      Populate, AddNotification, SendEmail] @
           (if emailOk e then []
            else [ConsoleError ''Email sending failed:'',
                  ConsoleError ''Email notification failed:'']) @
           [Emit ''shipment:created'', Emit ''contract:threshold_exceeded'',
            ReleaseLock (''shipment:'' @ r_contractId req), EndSession] \<and>
         outcome (fst (createShipment others e req w)) = Some BLOCKED \<and>
         fst (createShipment others (e\<lparr>emailOk := False\<rparr>) req w) =
           fst (createShipment others (e\<lparr>emailOk := True\<rparr>) req w) \<and>
         db (snd (createShipment others (e\<lparr>emailOk := False\<rparr>) req w)) =
           db (snd (createShipment others (e\<lparr>emailOk := True\<rparr>) req w))"
proof -
  have committed:
    "map_sum fst (\<lambda>p. contracts (db (snd p)) (r_contractId req)) (admit others e req k w')
       = Inr (Some (c\<lparr>isLocked := True, lastUpdated := now e\<rparr>))"
    if same: "db w' = db w" for w' k
  proof -
    from c same have c': "contracts (db w') (r_contractId req) = Some c" by simp
    show ?thesis
      unfolding admit_blocked [where others = others, OF c' key unlocked exceeds]
      by (simp add: release_def Let_def)
  qed
  have run: "createShipment others e' req w =
     (Created ''Shipment blocked successfully''
        (new_shipment e' req c BLOCKED
           (Some (block_reason (js_add (batteriesShipped c) (r_batteriesShipped req)) (threshold c))))
        (Some ''Shipment blocked due to threshold exceeded''),
      w\<lparr>redisClient := (redisClient w)\<lparr>entries := (entries (redisClient w))
                          (''shipment:'' @ r_contractId req := None)\<rparr>,
        db := (db w)\<lparr>contracts := (contracts (db w))
                 (r_contractId req \<mapsto>
                    c\<lparr>isLocked := True, lastUpdated := now e',
                      notificationsSent := notificationsSent c @
                        [\<lparr>email = user_email req,
                          message = notification_message (r_contractId req),
                          ntype = ''THRESHOLD_EXCEEDED'', timestamp = now e'\<rparr>]\<rparr>),
               shipments := shipments (db w) @
                 [new_shipment e' req c BLOCKED
                    (Some (block_reason (js_add (batteriesShipped c) (r_batteriesShipped req))
                             (threshold c)))]\<rparr>,
        trace := trace w @ [StartSession, StartTransaction,
                 AcquireLock (''shipment:'' @ r_contractId req) True,
                 FindContract (r_contractId req), SaveContract, SaveShipment, CommitTransaction,
                 ReleaseLock (''shipment:'' @ r_contractId req), Populate, AddNotification,
                 SendEmail] @
                 (if emailOk e' then []
                  else [ConsoleError ''Email sending failed:'',
                        ConsoleError ''Email notification failed:'']) @
                 [Emit ''shipment:created'', Emit ''contract:threshold_exceeded'',
                  ReleaseLock (''shipment:'' @ r_contractId req), EndSession]\<rparr>)"
    if "now e' = now e" for e'
  proof -
    from free that
    have free': "redis_get (redisClient w) (''shipment:'' @ r_contractId req) (now e') = None"
      by simp
    show ?thesis
      by (rule createShipment_blocked [where others = others, OF valid up free' c key unlocked exceeds])
  qed
  have same_response:
    "fst (createShipment others (e\<lparr>emailOk := False\<rparr>) req w) =
     fst (createShipment others (e\<lparr>emailOk := True\<rparr>) req w)"
    by (simp add: run new_shipment_def)
  have same_ledger:
    "db (snd (createShipment others (e\<lparr>emailOk := False\<rparr>) req w)) =
     db (snd (createShipment others (e\<lparr>emailOk := True\<rparr>) req w))"
    by (simp add: run new_shipment_def)
  have here: "now e = now e" by simp
  from committed same_response same_ledger show ?thesis
    unfolding run [OF here] by (simp add: outcome_def new_shipment_def)
qed

theorem blocked_notification_after_commit_witness:
  "validationOk (user_req 10) \<and> up (redisClient world0) \<and>
   redis_get (redisClient world0) (''shipment:'' @ r_contractId (user_req 10)) (now env0) = None \<and>
   contracts (db world0) (r_contractId (user_req 10)) = Some c55 \<and>
   contractId c55 = r_contractId (user_req 10) \<and> \<not> isLocked c55 \<and>
   threshold c55 < js_add (batteriesShipped c55) (r_batteriesShipped (user_req 10)) \<and>
   outcome (fst (createShipment (\<lambda>l. l) env0 (user_req 10) world0)) = Some BLOCKED \<and>
   fst (createShipment (\<lambda>l. l) (env0\<lparr>emailOk := False\<rparr>) (user_req 10) world0) =
     fst (createShipment (\<lambda>l. l) (env0\<lparr>emailOk := True\<rparr>) (user_req 10) world0) \<and>
   db (snd (createShipment (\<lambda>l. l) (env0\<lparr>emailOk := False\<rparr>) (user_req 10) world0)) =
     db (snd (createShipment (\<lambda>l. l) (env0\<lparr>emailOk := True\<rparr>) (user_req 10) world0))"
proof -
  have valid: "validationOk (user_req 10)" by (simp add: example_defs validationOk_def)
  have up: "up (redisClient world0)" by (simp add: example_defs)
  have free: "redis_get (redisClient world0) (''shipment:'' @ r_contractId (user_req 10)) (now env0)
              = None"
    by (simp add: example_defs redis_get_def)
  have c: "contracts (db world0) (r_contractId (user_req 10)) = Some c55"
    by (simp add: example_defs)
  have key: "contractId c55 = r_contractId (user_req 10)" by (simp add: example_defs)
  have unlocked: "\<not> isLocked c55"
    and exceeds: "threshold c55 < js_add (batteriesShipped c55) (r_batteriesShipped (user_req 10))"
    by (simp_all add: example_defs)
  from blocked_notification_after_commit
    [where others = "\<lambda>l. l", OF valid up free c key unlocked exceeds]
    valid up free c key unlocked exceeds
  show ?thesis by simp
qed

theorem notification_outside_transaction_counterexample:
  "map_sum fst (\<lambda>p. map_option isLocked (contracts (db (snd p)) ''PBR-2''))
     (admit (\<lambda>l. l) env0 (user_req 10) ''shipment:PBR-2'' world0) = Inr (Some True) \<and>
   map_sum fst (\<lambda>p. map_option notificationsSent (contracts (db (snd p)) ''PBR-2''))
     (admit (\<lambda>l. l) env0 (user_req 10) ''shipment:PBR-2'' world0) = Inr (Some []) \<and>
   trace (snd (createShipment (\<lambda>l. l) env0 (user_req 10) world0)) =
     [StartSession, StartTransaction, AcquireLock ''shipment:PBR-2'' True,
      FindContract ''PBR-2'', SaveContract, SaveShipment, CommitTransaction,
      ReleaseLock ''shipment:PBR-2'', Populate, AddNotification, SendEmail,
      ConsoleError ''Email sending failed:'', ConsoleError ''Email notification failed:'',
      Emit ''shipment:created'', Emit ''contract:threshold_exceeded'',
      ReleaseLock ''shipment:PBR-2'', EndSession] \<and>
   map_option notificationsSent
     (contracts (db (snd (createShipment (\<lambda>l. l) env0 (user_req 10) world0))) ''PBR-2'') =
     Some [\<lparr>email = ''alice@example.com'', message = notification_message ''PBR-2'',
            ntype = ''THRESHOLD_EXCEEDED'', timestamp = 1000\<rparr>]"
proof -
  have c: "contracts (db world0) (r_contractId (user_req 10)) = Some c55"
    by (simp add: example_defs)
  have key: "contractId c55 = r_contractId (user_req 10)" by (simp add: example_defs)
  have unlocked: "\<not> isLocked c55"
    and exceeds: "threshold c55 < js_add (batteriesShipped c55) (r_batteriesShipped (user_req 10))"
    by (simp_all add: example_defs)
  have k: "r_contractId (user_req 10) = ''PBR-2''" by (simp add: user_req_def)
  have none: "notificationsSent c55 = []" by (simp add: c55_def)
  show ?thesis
    unfolding admit_blocked [where others = "\<lambda>l. l", OF c key unlocked exceeds] blocked_run_world0
    by (simp add: release_def Let_def k none)
qed



section \<open>Releasing the lock\<close>

text \<open>
  C8. \<open>releaseLock\<close> takes the key and no token: it deletes whatever is stored under the
  key, and the value \<open>acquireLock\<close> stores for the holder is compared nowhere. Holder A
  takes the lock at time 0 for ten seconds; at time 10001 the entry has expired and holder
  B takes the lock; the release by A that follows answers \<open>true\<close> and deletes the token
  of B, so that the key is free while B holds the lock.
\<close>

theorem release_deletes_later_holders_token:
  "ok (acquireLock redis0 ''shipment:PBR-2'' 10000 0 ''0.1'') \<and>
   redis_get redis_A ''shipment:PBR-2'' 10001 = None \<and>
   ok (acquireLock redis_A ''shipment:PBR-2'' 10000 10001 ''0.2'') \<and>
   redis_get redis_B ''shipment:PBR-2'' 10002 = Some ''10001-0.2'' \<and>
   ok (releaseLock redis_B ''shipment:PBR-2'') \<and>
   redis_get (client (releaseLock redis_B ''shipment:PBR-2'')) ''shipment:PBR-2'' 10002 = None \<and>
   redis_get (client (releaseLock redis_B ''shipment:PBR-2'')) ''shipment:PBR-2'' 10002
     \<noteq> redis_get redis_B ''shipment:PBR-2'' 10002"
  by (simp add: redis_B_eq redis_A_eq redis0_def lock_defs print_simps)

text \<open>
  The handler releases the lock twice, after the commit and in its \<open>finally\<close> block. A
  request that takes the lock between the two loses it to the second release, with no
  expiry involved: in the run below the second handler has the lock and has read the
  contract when the first one sends its response, and the third takes the lock at once.
\<close>

lemma second_release_frees_held_lock:
  "map h_at (snd (exec (take 7 relay) (world0, handlers_ACD))) =
     [HasNotified \<lparr>a_shipment = new_shipment env_A (user_req 1) c55 APPROVED None,
                   a_contract = c55, a_newTotal = 56\<rparr>,
      HasContract (c55\<lparr>batteriesShipped := 56\<rparr>),
      AtStart] \<and>
   redis_get (redisClient (fst (exec (take 7 relay) (world0, handlers_ACD))))
     ''shipment:PBR-2'' 100 = Some ''100-0.3'' \<and>
   redis_get (redisClient (fst (exec (take 8 relay) (world0, handlers_ACD))))
     ''shipment:PBR-2'' 100 = None \<and>
   map h_at (snd (exec relay (world0, handlers_ACD))) =
     [Answered (Created ''Shipment approved successfully''
                  (new_shipment env_A (user_req 1) c55 APPROVED None) None),
      HasContract (c55\<lparr>batteriesShipped := 56\<rparr>),
      HasLock] \<and>
   redis_get (redisClient (fst (exec relay (world0, handlers_ACD))))
     ''shipment:PBR-2'' 200 = Some ''200-0.4''"
  using relay_run by simp


end
